theory Spec2Isabelle
  imports Complex_Main "HOL-Library.Multiset"
begin

section \<open>Data model\<close>

text \<open>
  The program works on xarray datasets: arrays of floating-point numbers labelled along
  a \<open>location_id\<close> axis and along stratifying axes (age group, sex, draw, scenario, and
  others such as year). A dataset is modelled by the names of its dimensions, by the
  labels of its stratifying axes and by its rows along the \<open>location_id\<close> axis; the row
  of a location holds the slice of the \<open>value\<close> variable at that location, a function
  from the combination of the other axes' labels (a key) to the cell. The slice is
  meaningful at the keys whose labels are on the axes of the dataset. Numbers are
  idealised as reals. Input cells are numbers; a cell that the program computes may be
  the missing value NaN, written \<open>None\<close>.
\<close>

datatype error =
    ValueError string
  | KeyError string
  | FileNotFoundError string
  | UnboundLocalError string
  | OSError string

record ('k, 'c) row =
  location_id :: int
  val :: "'k \<Rightarrow> 'c"

text \<open>The fine-level rows after \<open>attach_hierarchy\<close> also carry \<open>parent_id\<close>.\<close>

record ('k, 'c) hrow = "('k, 'c) row" +
  parent_id :: int

text \<open>
  The names of the dimensions (\<open>ds.dims\<close>; the program only asks whether a name is
  one of them and whether two datasets have the same ones), the labels of the
  stratifying axes that the program inspects or assigns, and the rows. The field \<open>val\<close>
  is the data variable \<open>value\<close>. The arithmetic of the raking steps is modelled for
  tables that have the four axes; the labels of the other axes are taken to be the same
  in the tables of a run.
\<close>

record 'r dataset =
  dims :: "string set"
  age_group_id :: "int list"
  sex_id :: "int list"
  draw_coord :: "int list"
  scenario_coord :: "int list"
  rows :: "'r list"

text \<open>
  A combination of labels of the stratifying axes; the axes that the program never
  inspects are in the extension of the record.
\<close>

record dim_key =
  key_age_group_id :: int
  key_sex_id :: int
  key_draw :: int
  key_scenario :: int

definition on_axes :: "'r dataset \<Rightarrow> 'o dim_key_scheme \<Rightarrow> bool" where
  "on_axes ds k \<longleftrightarrow>
     key_age_group_id k \<in> set (age_group_id ds) \<and> key_sex_id k \<in> set (sex_id ds) \<and>
     key_draw k \<in> set (draw_coord ds) \<and> key_scenario k \<in> set (scenario_coord ds)"

text \<open>
  Arithmetic between two arrays keeps the labels that are on the axes of both (xarray's
  inner join); the result has the dimensions of both.
\<close>

definition common_labels :: "int list \<Rightarrow> int list \<Rightarrow> int list" where
  "common_labels xs ys = filter (\<lambda>x. x \<in> set ys) xs"

subsection \<open>Library operations\<close>

text \<open>
  \<open>list(set(xs) & set(ys))\<close>: the common elements, each once. CPython enumerates a
  set in hash order; the model enumerates it in increasing order, and no theorem below
  depends on the order.
\<close>

definition set_inter_list :: "int list \<Rightarrow> int list \<Rightarrow> int list" where
  "set_inter_list xs ys = sort (remdups (filter (\<lambda>x. x \<in> set ys) xs))"

text \<open>\<open>list(set(xs) - set(ys))\<close>.\<close>

definition set_diff_list :: "int list \<Rightarrow> int list \<Rightarrow> int list" where
  "set_diff_list xs ys = sort (remdups (filter (\<lambda>x. x \<notin> set ys) xs))"

text \<open>The row labelled \<open>i\<close> on the \<open>location_id\<close> axis.\<close>

definition lookup :: "int \<Rightarrow> ('k, 'c, 'm) row_scheme list \<Rightarrow> ('k, 'c, 'm) row_scheme option" where
  "lookup i rs = find (\<lambda>r. location_id r = i) rs"

text \<open>
  \<open>ds.sel(location_id=ids)\<close>: the rows labelled \<open>ids\<close>, in that order; a label that
  is not on the axis raises \<open>KeyError\<close>.
\<close>

fun sel :: "int list \<Rightarrow> ('k, 'c, 'm) row_scheme list \<Rightarrow> error + ('k, 'c, 'm) row_scheme list" where
  "sel [] rs = Inr []"
| "sel (i # ids) rs =
     (case lookup i rs of
        None \<Rightarrow> Inl (KeyError ''location_id'')
      | Some r \<Rightarrow> (case sel ids rs of Inl e \<Rightarrow> Inl e | Inr out \<Rightarrow> Inr (r # out)))"

text \<open>
  Floating-point cells that may be NaN: comparison with zero (false on NaN),
  \<open>xr.where\<close>, division and product. A division by zero gives an infinity or NaN, no
  real number: it is \<open>None\<close> as well.
\<close>

definition eq0 :: "real option \<Rightarrow> bool" where
  "eq0 x = (x = Some 0)"

definition xr_where :: "bool \<Rightarrow> real option \<Rightarrow> real option \<Rightarrow> real option" where
  "xr_where c x y = (if c then x else y)"

definition fdiv :: "real option \<Rightarrow> real option \<Rightarrow> real option" where
  "fdiv x y =
     (case (x, y) of (Some a, Some b) \<Rightarrow> (if b = 0 then None else Some (a / b)) | _ \<Rightarrow> None)"

definition fmul :: "real option \<Rightarrow> real option \<Rightarrow> real option" where
  "fmul x y = (case (x, y) of (Some a, Some b) \<Rightarrow> Some (a * b) | _ \<Rightarrow> None)"

section \<open>Partitioning\<close>

definition split_ds_admin1 ::
  "('k, real) hrow dataset \<Rightarrow> ('k, real) row dataset \<Rightarrow>
   error + (('k, real) row dataset \<times> ('k, real) row dataset)" where
  "split_ds_admin1 ds_admin2 ds_admin1 =
     (let common_ids = set_inter_list (map parent_id (rows ds_admin2))
                                      (map location_id (rows ds_admin1)) in
      case sel common_ids (rows ds_admin1) of
        Inl e \<Rightarrow> Inl e
      | Inr with_rows \<Rightarrow>
          (let remaining_ids = set_diff_list (map location_id (rows ds_admin1)) common_ids in
           case sel remaining_ids (rows ds_admin1) of
             Inl e \<Rightarrow> Inl e
           | Inr without_rows \<Rightarrow>
               Inr (ds_admin1\<lparr>rows := with_rows\<rparr>, ds_admin1\<lparr>rows := without_rows\<rparr>)))"

definition split_ds_admin2 ::
  "('k, real) hrow dataset \<Rightarrow> ('k, real) row dataset \<Rightarrow>
   ('k, real) hrow dataset \<times> ('k, real) hrow dataset" where
  "split_ds_admin2 ds_admin2 ds_admin1 =
     (let common_ids = set_inter_list (map parent_id (rows ds_admin2))
                                      (map location_id (rows ds_admin1));
          mask = (\<lambda>r. parent_id r \<in> set common_ids)
      in (ds_admin2\<lparr>rows := filter mask (rows ds_admin2)\<rparr>,
          ds_admin2\<lparr>rows := filter (\<lambda>r. \<not> mask r) (rows ds_admin2)\<rparr>))"

section \<open>Factor computation\<close>

text \<open>
  \<open>ds[value].groupby("parent_id").sum(dim="location_id")\<close>, renamed: one row per
  distinct \<open>parent_id\<close>, in increasing order, holding the sum of the group's slices.
  Grouping by a variable without elements, here the \<open>parent_id\<close> of a table without
  rows, raises \<open>ValueError\<close>.
\<close>

definition groupby_parent_sum :: "('k, real) hrow list \<Rightarrow> error + ('k, real) row list" where
  "groupby_parent_sum rs =
     (if rs = [] then Inl (ValueError ''parent_id must not be empty'')
      else Inr (map (\<lambda>p. \<lparr>location_id = p,
                         val = (\<lambda>k. \<Sum>r \<leftarrow> filter (\<lambda>r. parent_id r = p) rs. val r k)\<rparr>)
                   (sort (remdups (map parent_id rs)))))"

text \<open>\<open>reindex(location_id=ids)\<close>: a label with no row gets a row of NaN.\<close>

definition reindex :: "('k, real) row list \<Rightarrow> int list \<Rightarrow> ('k, real option) row list" where
  "reindex rs ids =
     map (\<lambda>i. \<lparr>location_id = i,
               val = (case lookup i rs of None \<Rightarrow> (\<lambda>k. None) | Some r \<Rightarrow> (\<lambda>k. Some (val r k)))\<rparr>)
         ids"

definition sum_and_align_admin2_totals ::
  "('k, real) hrow dataset \<Rightarrow> ('k, real) row dataset \<Rightarrow>
   error + ('k, real option) row dataset" where
  "sum_and_align_admin2_totals ds_admin2 ds_admin1 =
     (case groupby_parent_sum (rows ds_admin2) of
        Inl e \<Rightarrow> Inl e
      | Inr admin2_sums \<Rightarrow>
     (let admin1_ids = map location_id (rows ds_admin1);
          admin2_sums_aligned = reindex admin2_sums admin1_ids;
          aligned = (\<lambda>i k. case lookup i admin2_sums_aligned of None \<Rightarrow> None | Some s \<Rightarrow> val s k);
          factor = map (\<lambda>r. \<lparr>location_id = location_id r,
                              val = (\<lambda>k. xr_where
                                           (eq0 (aligned (location_id r) k) \<or> val r k = 0)
                                           (Some 1)
                                           (fdiv (Some (val r k))
                                                 (xr_where (eq0 (aligned (location_id r) k))
                                                           (Some 1)
                                                           (aligned (location_id r) k))))\<rparr>)
                       (rows ds_admin1)
      in Inr \<lparr>dims = dims ds_admin1 \<union> dims ds_admin2,
              age_group_id = common_labels (age_group_id ds_admin1) (age_group_id ds_admin2),
              sex_id = common_labels (sex_id ds_admin1) (sex_id ds_admin2),
              draw_coord = common_labels (draw_coord ds_admin1) (draw_coord ds_admin2),
              scenario_coord = common_labels (scenario_coord ds_admin1) (scenario_coord ds_admin2),
              rows = factor\<rparr>))"

section \<open>Factor broadcast and merge\<close>

text \<open>
  \<open>factor_da.sel(parent_id=ds_admin2["parent_id"])\<close> looks the factor row of every
  fine-level row's parent up (\<open>KeyError\<close> when there is none); the product with the
  fine-level values keeps the \<open>location_id\<close> and \<open>parent_id\<close> coordinates.
\<close>

fun broadcast_rows ::
  "('k, real) hrow list \<Rightarrow> ('k, real option) row list \<Rightarrow> error + ('k, real option) hrow list" where
  "broadcast_rows [] factor = Inr []"
| "broadcast_rows (r # rs) factor =
     (case lookup (parent_id r) factor of
        None \<Rightarrow> Inl (KeyError ''parent_id'')
      | Some f \<Rightarrow>
          (case broadcast_rows rs factor of
             Inl e \<Rightarrow> Inl e
           | Inr out \<Rightarrow>
               Inr (\<lparr>location_id = location_id r,
                     val = (\<lambda>k. fmul (Some (val r k)) (val f k)),
                     parent_id = parent_id r\<rparr> # out)))"

definition broadcast_factor_to_admin2 ::
  "('k, real) hrow dataset \<Rightarrow> ('k, real option) row dataset \<Rightarrow>
   error + ('k, real option) hrow dataset" where
  "broadcast_factor_to_admin2 ds_admin2 factor =
     (case broadcast_rows (rows ds_admin2) (rows factor) of
        Inl e \<Rightarrow> Inl e
      | Inr raked_rows \<Rightarrow>
          Inr \<lparr>dims = dims ds_admin2 \<union> dims factor,
               age_group_id = common_labels (age_group_id ds_admin2) (age_group_id factor),
               sex_id = common_labels (sex_id ds_admin2) (sex_id factor),
               draw_coord = common_labels (draw_coord ds_admin2) (draw_coord factor),
               scenario_coord = common_labels (scenario_coord ds_admin2) (scenario_coord factor),
               rows = raked_rows\<rparr>)"

text \<open>
  \<open>ds_admin2_raked[value_var] = raked_values\<close> aligns the new variable with the axes of
  the dataset: a location without a raked row, and a key that is not on the axes of the
  raked values, get NaN. The dataset gets the dimensions of the new variable as well.
\<close>

definition mask_to_axes ::
  "'r dataset \<Rightarrow> ('o dim_key_scheme \<Rightarrow> real option) \<Rightarrow> 'o dim_key_scheme \<Rightarrow> real option" where
  "mask_to_axes ds v k = (if on_axes ds k then v k else None)"

definition build_raked_dataset ::
  "('o dim_key_scheme, real) hrow dataset \<Rightarrow> ('o dim_key_scheme, real option) hrow dataset \<Rightarrow>
   ('o dim_key_scheme, real option) hrow dataset" where
  "build_raked_dataset ds_admin2 raked_values =
     \<lparr>dims = dims ds_admin2 \<union> dims raked_values,
      age_group_id = age_group_id ds_admin2, sex_id = sex_id ds_admin2,
      draw_coord = draw_coord ds_admin2, scenario_coord = scenario_coord ds_admin2,
      rows = map (\<lambda>r. \<lparr>location_id = location_id r,
                        val = (case lookup (location_id r) (rows raked_values) of
                                 None \<Rightarrow> (\<lambda>k. None)
                               | Some x \<Rightarrow> mask_to_axes raked_values (val x)),
                        parent_id = parent_id r\<rparr>)
                 (rows ds_admin2)\<rparr>"

text \<open>
  \<open>xr.concat([raked_ds, ds_admin2_without_parent], dim="location_id")\<close>. The rows that
  were not raked hold numbers, never NaN.
\<close>

definition merge_raked_and_unraked_admin2_dask ::
  "('k, real option) hrow dataset \<Rightarrow> ('k, real) hrow dataset \<Rightarrow> ('k, real option) hrow dataset" where
  "merge_raked_and_unraked_admin2_dask raked_ds ds_admin2_without_parent =
     raked_ds\<lparr>rows := rows raked_ds @
                 map (\<lambda>r. \<lparr>location_id = location_id r, val = (\<lambda>k. Some (val r k)),
                           parent_id = parent_id r\<rparr>)
                     (rows ds_admin2_without_parent)\<rparr>"

text \<open>Only the variable \<open>value\<close> is kept; \<open>parent_id\<close> is a data variable again and goes.\<close>

definition drop_data_variables ::
  "('k, real option) hrow dataset \<Rightarrow> ('k, real option) row dataset" where
  "drop_data_variables merged_ds =
     \<lparr>dims = dims merged_ds,
      age_group_id = age_group_id merged_ds, sex_id = sex_id merged_ds,
      draw_coord = draw_coord merged_ds, scenario_coord = scenario_coord merged_ds,
      rows = map (\<lambda>r. \<lparr>location_id = location_id r, val = val r\<rparr>) (rows merged_ds)\<rparr>"

section \<open>The raking steps\<close>

text \<open>
  Steps 5 to 10 of \<open>main_raking_function\<close>, from the fine-level table with its hierarchy
  attached and the coarse-level table to the merged table.
\<close>

definition raking_steps ::
  "('o dim_key_scheme, real) hrow dataset \<Rightarrow> ('o dim_key_scheme, real) row dataset \<Rightarrow>
   error + ('o dim_key_scheme, real option) row dataset" where
  "raking_steps ds_admin2 ds_admin1 =
     (case split_ds_admin2 ds_admin2 ds_admin1 of
        (ds_admin2_with_parent, ds_admin2_without_parent) \<Rightarrow>
     (case split_ds_admin1 ds_admin2 ds_admin1 of
        Inl e \<Rightarrow> Inl e
      | Inr (ds_admin1_with_parent, _) \<Rightarrow>
     (case sum_and_align_admin2_totals ds_admin2_with_parent ds_admin1_with_parent of
        Inl e \<Rightarrow> Inl e
      | Inr factor \<Rightarrow>
     (case broadcast_factor_to_admin2 ds_admin2_with_parent factor of
        Inl e \<Rightarrow> Inl e
      | Inr raked_values \<Rightarrow>
     (let ds_admin2_raked = build_raked_dataset ds_admin2_with_parent raked_values;
          merged_ds = merge_raked_and_unraked_admin2_dask ds_admin2_raked ds_admin2_without_parent
      in Inr (drop_data_variables merged_ds))))))"

section \<open>Notions of the specification\<close>

text \<open>The sum of the fine-level values of the children of \<open>p\<close>, per dimension combination.\<close>

definition children_sum :: "('k, real) hrow list \<Rightarrow> int \<Rightarrow> 'k \<Rightarrow> real" where
  "children_sum rs p k = (\<Sum>r \<leftarrow> filter (\<lambda>r. parent_id r = p) rs. val r k)"

text \<open>A floating-point sum: NaN as soon as one summand is NaN.\<close>

definition fadd :: "real option \<Rightarrow> real option \<Rightarrow> real option" where
  "fadd x y = (case (x, y) of (Some a, Some b) \<Rightarrow> Some (a + b) | _ \<Rightarrow> None)"

definition raked_children_sum :: "('k, real option) hrow list \<Rightarrow> int \<Rightarrow> 'k \<Rightarrow> real option" where
  "raked_children_sum rs p k =
     foldr (\<lambda>r acc. fadd (val r k) acc) (filter (\<lambda>r. parent_id r = p) rs) (Some 0)"

text \<open>
  The raked rows in closed form: every value of the with-parent partition multiplied by
  the factor of its parent.
\<close>

definition raked_rows_of ::
  "('k, real) hrow dataset \<Rightarrow> ('k, real) row dataset \<Rightarrow> ('k, real option) hrow list" where
  "raked_rows_of w a1w =
     map (\<lambda>r. \<lparr>location_id = location_id r,
               val = (\<lambda>k. Some (val r k *
                        (if children_sum (rows w) (parent_id r) k = 0 \<or>
                            val (the (lookup (parent_id r) (rows a1w))) k = 0 then 1
                         else val (the (lookup (parent_id r) (rows a1w))) k /
                              children_sum (rows w) (parent_id r) k))),
               parent_id = parent_id r\<rparr>) (rows w)"

section \<open>Key reconciliation\<close>

text \<open>The dictionary \<open>IMPUTE_MAP\<close>, as its items in iteration (insertion) order.\<close>

definition IMPUTE_MAP :: "(int \<times> int) list" where
  "IMPUTE_MAP = [(60908, 44858), (95069, 44858), (94364, 44858)]"

text \<open>
  The body of the loop of \<open>impute_location_ids\<close> for one item. When both labels are on
  the axis the slice of \<open>old_id\<close> is added in place to the slice of \<open>new_id\<close>, else
  the coordinate \<open>old_id\<close> is rewritten to \<open>new_id\<close>; a row still labelled \<open>old_id\<close>
  is dropped at the end. The \<open>location_id\<close> axis is a unique index.
\<close>

definition impute_step :: "int \<times> int \<Rightarrow> ('k, real) row list \<Rightarrow> ('k, real) row list" where
  "impute_step item rs =
     (case item of (old_id, new_id) \<Rightarrow>
        let rs1 =
          (if old_id \<in> set (map location_id rs) then
             (if new_id \<in> set (map location_id rs) then
                (case lookup old_id rs of
                   None \<Rightarrow> rs
                 | Some old_row \<Rightarrow>
                     map (\<lambda>r. if location_id r = new_id
                               then r\<lparr>val := (\<lambda>k. val r k + val old_row k)\<rparr> else r) rs)
              else map (\<lambda>r. if location_id r = old_id then r\<lparr>location_id := new_id\<rparr> else r) rs)
           else rs)
        in if old_id \<in> set (map location_id rs1)
           then filter (\<lambda>r. location_id r \<noteq> old_id) rs1 else rs1)"

text \<open>The loop over the items of a dictionary, and the function of the program.\<close>

definition impute_with :: "(int \<times> int) list \<Rightarrow> ('k, real) row dataset \<Rightarrow> ('k, real) row dataset" where
  "impute_with items ds = ds\<lparr>rows := fold impute_step items (rows ds)\<rparr>"

definition impute_location_ids :: "('k, real) row dataset \<Rightarrow> ('k, real) row dataset" where
  "impute_location_ids ds = impute_with IMPUTE_MAP ds"

text \<open>
  The table as the specification sees it: keyed by entity id. The contract of the
  specification for one item of the mapping, in its words: if \<open>old_id\<close> is present and
  \<open>new_id\<close> exists, add the values of \<open>old_id\<close> into those of \<open>new_id\<close>; if \<open>new_id\<close>
  does not exist, relabel \<open>old_id\<close> as \<open>new_id\<close>; the rows of \<open>old_id\<close> are then removed.
\<close>

definition table :: "('k, 'c) row list \<Rightarrow> int \<Rightarrow> ('k \<Rightarrow> 'c) option" where
  "table rs i = map_option val (lookup i rs)"

definition spec_reconcile :: "int \<times> int \<Rightarrow> (int \<Rightarrow> ('k \<Rightarrow> real) option) \<Rightarrow> int \<Rightarrow> ('k \<Rightarrow> real) option" where
  "spec_reconcile item m =
     (case item of (old_id, new_id) \<Rightarrow>
        (case m old_id of
           None \<Rightarrow> m
         | Some old_values \<Rightarrow>
             (case m new_id of
                Some new_values \<Rightarrow> (m(new_id \<mapsto> (\<lambda>k. new_values k + old_values k)))(old_id := None)
              | None \<Rightarrow> (m(new_id \<mapsto> old_values))(old_id := None))))"

text \<open>The value of an entity that may be absent, absent counting as zero.\<close>

definition value_or_zero :: "(int \<Rightarrow> ('k \<Rightarrow> real) option) \<Rightarrow> int \<Rightarrow> 'k \<Rightarrow> real" where
  "value_or_zero m i k = (case m i of None \<Rightarrow> 0 | Some v \<Rightarrow> v k)"


section \<open>Alignment and the hierarchy\<close>

text \<open>A record of the hierarchy file: an entity, its level and its parent.\<close>

record hierarchy_row =
  h_location_id :: int
  h_level :: int
  h_parent_id :: int

definition subset_admin1_to_admin2_dims ::
  "'a dataset \<Rightarrow> 'b dataset \<Rightarrow> 'a dataset" where
  "subset_admin1_to_admin2_dims ds_admin1 ds_admin2 =
     (let age_ids = filter (\<lambda>a. a \<in> set (age_group_id ds_admin2)) (age_group_id ds_admin1);
          sex_ids = filter (\<lambda>s. s \<in> set (sex_id ds_admin2)) (sex_id ds_admin1)
      in ds_admin1\<lparr>age_group_id := age_ids, sex_id := sex_ids\<rparr>)"

definition subset_ds_to_admin2_locations ::
  "hierarchy_row list \<Rightarrow> ('k, real) row dataset \<Rightarrow> error + ('k, real) row dataset" where
  "subset_ds_to_admin2_locations hierarchy_ds ds =
     (let common_ids = set_inter_list (map h_location_id hierarchy_ds) (map location_id (rows ds)) in
      case sel common_ids (rows ds) of
        Inl e \<Rightarrow> Inl e
      | Inr rs \<Rightarrow> Inr (ds\<lparr>rows := rs\<rparr>))"

text \<open>
  Both tables are selected at the common ids and merged: every row gets the
  \<open>parent_id\<close> of its entity.
\<close>

fun attach_rows ::
  "int list \<Rightarrow> ('k, real) row list \<Rightarrow> hierarchy_row list \<Rightarrow> error + ('k, real) hrow list" where
  "attach_rows [] rs hs = Inr []"
| "attach_rows (i # ids) rs hs =
     (case lookup i rs of
        None \<Rightarrow> Inl (KeyError ''location_id'')
      | Some r \<Rightarrow>
          (case find (\<lambda>h. h_location_id h = i) hs of
             None \<Rightarrow> Inl (KeyError ''location_id'')
           | Some h \<Rightarrow>
               (case attach_rows ids rs hs of
                  Inl e \<Rightarrow> Inl e
                | Inr out \<Rightarrow>
                    Inr (\<lparr>location_id = i, val = val r, parent_id = h_parent_id h\<rparr> # out))))"

definition attach_hierarchy ::
  "('k, real) row dataset \<Rightarrow> hierarchy_row list \<Rightarrow> error + ('k, real) hrow dataset" where
  "attach_hierarchy ds hierarchy_ds =
     (let common_ids = set_inter_list (map location_id (rows ds)) (map h_location_id hierarchy_ds) in
      case attach_rows common_ids (rows ds) hierarchy_ds of
        Inl e \<Rightarrow> Inl e
      | Inr rs \<Rightarrow>
          Inr \<lparr>dims = dims ds, age_group_id = age_group_id ds, sex_id = sex_id ds,
               draw_coord = draw_coord ds, scenario_coord = scenario_coord ds, rows = rs\<rparr>)"

section \<open>Files and configuration\<close>

text \<open>
  The file system as the program sees it: the directories, the NetCDF files of each kind
  with their contents, and the output files that exist. A file of predictions may or may
  not have a \<open>draw\<close> dimension, of some length; its labels are \<open>draw_coord\<close> when
  \<open>draw\<close> is one of its dimensions.
\<close>

record 'o world =
  directories :: "string set"
  forecast_files :: "string \<Rightarrow> ('o dim_key_scheme, real) row dataset option"
  predicted_files :: "string \<Rightarrow> ('o dim_key_scheme, real) row dataset option"
  hierarchy_files :: "string \<Rightarrow> hierarchy_row list option"
  output_files :: "string set"

definition path_exists :: "'o world \<Rightarrow> string \<Rightarrow> bool" where
  "path_exists w p \<longleftrightarrow>
     p \<in> directories w \<or> forecast_files w p \<noteq> None \<or> predicted_files w p \<noteq> None \<or>
     hierarchy_files w p \<noteq> None \<or> p \<in> output_files w"

text \<open>What the program does to the outside, in order.\<close>

datatype io_event =
    PathExists string
  | OpenDataset string
  | Mkdir string
  | Chmod string
  | ToNetcdf string
  | Print string

text \<open>The decimal numeral of an integer, as an f-string prints it.\<close>

function str_nat :: "nat \<Rightarrow> string" where
  "str_nat n = (if n < 10 then [''0123456789'' ! n]
                else str_nat (n div 10) @ [''0123456789'' ! (n mod 10)])"
  by pat_completeness auto
termination
  by (relation "measure id") auto

declare str_nat.simps [simp del]

definition str_int :: "int \<Rightarrow> string" where
  "str_int i = (if i < 0 then CHR ''-'' # str_nat (nat (- i)) else str_nat (nat i))"

definition CAUSE_MAP :: "string \<Rightarrow> string option" where
  "CAUSE_MAP = map_of [(''malaria'', ''malaria.nc''), (''dengue'', ''ntd_dengue.nc'')]"

definition scenario_and_measure_map :: "int \<times> string \<Rightarrow> string option" where
  "scenario_and_measure_map = map_of
     [((0, ''death''), ''20250709_first_sub_rcp45_climate_ref_100d_hiv_shocks_covid_all_s8_num''),
      ((0, ''incidence''), ''20250719_rcp45_first_sub_climate_ref_scen0_agg_num''),
      ((0, ''yll''), ''20250709_rcp45_first_sub_climate_ref_agg_num_restored_draws''),
      ((0, ''yld''), ''20250719_rcp45_first_sub_climate_ref_scen0_agg_num''),
      ((75, ''death''), ''20250709_first_sub_rcp26_first_sub_climate_vector_borne_diseases_100d_hiv_shocks_covid_all_s8_num''),
      ((75, ''incidence''), ''20250719_rcp26_first_sub_climate_vector_borne_diseases_scen75_agg_num''),
      ((75, ''yll''), ''20250709_rcp26_first_sub_climate_vector_borne_diseases_agg_num_restored_draws''),
      ((75, ''yld''), ''20250719_rcp26_first_sub_climate_vector_borne_diseases_scen75_agg_num''),
      ((76, ''death''), ''20250709_first_sub_rcp85_first_sub_climate_vector_borne_diseases_100d_hiv_shocks_covid_all_s8_num''),
      ((76, ''incidence''), ''20250719_rcp85_first_sub_climate_vector_borne_diseases_scen76_agg_num''),
      ((76, ''yll''), ''20250709_rcp85_first_sub_climate_vector_borne_diseases_agg_num_restored_draws''),
      ((76, ''yld''), ''20250719_rcp85_first_sub_climate_vector_borne_diseases_scen76_agg_num'')]"

definition SCENARIO_MAP :: "int \<Rightarrow> string option" where
  "SCENARIO_MAP = map_of [(0, ''ssp245''), (75, ''ssp126''), (76, ''ssp585'')]"

text \<open>\<open>MEASURE_MAP\<close> of \<open>get_predicted_ds\<close>.\<close>

definition MEASURE_MAP :: "string \<Rightarrow> string option" where
  "MEASURE_MAP = map_of [(''death'', ''mortality''), (''yll'', ''mortality''),
                         (''incidence'', ''incidence''), (''yld'', ''incidence'')]"

text \<open>\<open>MEASURE_MAP\<close> of \<open>save_raked_dataset_optimized\<close>.\<close>

definition SAVE_MEASURE_MAP :: "string \<Rightarrow> string option" where
  "SAVE_MEASURE_MAP = map_of [(''death'', ''mortality''), (''incidence'', ''incidence''),
                              (''yll'', ''yll''), (''yld'', ''yld'')]"

definition forecast_path :: "string \<Rightarrow> string \<Rightarrow> string \<Rightarrow> string" where
  "forecast_path measure' dataset_name file_name =
     ''/mnt/share/forecasting/data/9/future/'' @ measure' @ ''/'' @ dataset_name @ ''/'' @ file_name"

section \<open>Loading\<close>

text \<open>
  Every function that touches the file system takes the world and returns its result, an
  error or a value, with the events it caused. \<open>ds.where(ds["draw"] == draw, drop=True)\<close>
  keeps, on the \<open>draw\<close> axis, the labels equal to \<open>draw\<close>. The data variable of the
  file, \<open>draws\<close> or \<open>value\<close>, is the field \<open>val\<close> either way.
\<close>

definition get_forcasted_ds ::
  "'o world \<Rightarrow> string \<Rightarrow> int \<Rightarrow> string \<Rightarrow> int \<Rightarrow>
   (error + ('o dim_key_scheme, real) row dataset) \<times> io_event list" where
  "get_forcasted_ds w cause scenario measure' draw =
     (case scenario_and_measure_map (scenario, measure') of
        None \<Rightarrow> (Inl (ValueError ''Invalid scenario ID and measure combination.''), [])
      | Some dataset_name \<Rightarrow>
          (case CAUSE_MAP cause of
             None \<Rightarrow> (Inl (KeyError cause), [])
           | Some file_name \<Rightarrow>
               (let file_path = forecast_path measure' dataset_name file_name in
                if \<not> path_exists w file_path
                then (Inl (FileNotFoundError file_path), [PathExists file_path])
                else (case forecast_files w file_path of
                        None \<Rightarrow> (Inl (OSError file_path), [PathExists file_path, OpenDataset file_path])
                      | Some ds \<Rightarrow>
                          (Inr (ds\<lparr>draw_coord := filter (\<lambda>d. d = draw) (draw_coord ds)\<rparr>),
                           [PathExists file_path, OpenDataset file_path])))))"

definition predicted_main_dir :: string where
  "predicted_main_dir =
     ''/mnt/team/rapidresponse/pub/malaria-denv/deliverables/2025_08_26_admin_2_counts/input/''"

text \<open>
  The part of \<open>get_predicted_ds\<close> after \<open>draw_folder\<close> is bound. A \<open>draw\<close> dimension
  that is missing is added with length one; \<open>assign_coords(draw=[draw])\<close> raises
  \<open>ValueError\<close> on a dimension of another length. Then the dimension \<open>scenario\<close> is
  added, with the label \<open>scenario\<close>; \<open>expand_dims\<close> raises \<open>ValueError\<close> when the
  dataset has that dimension already. The data variable \<open>val\<close> of the file is the field
  \<open>val\<close>.
\<close>

definition open_predicted ::
  "'o world \<Rightarrow> string \<Rightarrow> int \<Rightarrow> int \<Rightarrow>
   (error + ('o dim_key_scheme, real) row dataset) \<times> io_event list" where
  "open_predicted w draw_folder scenario draw =
     (let draw_folder_path = predicted_main_dir @ draw_folder in
      if \<not> path_exists w draw_folder_path
      then (Inl (FileNotFoundError draw_folder_path), [PathExists draw_folder_path])
      else
        (let file_path = draw_folder_path @ ''/'' @ ''draw_'' @ str_int draw @ ''.nc'';
             events = [PathExists draw_folder_path, OpenDataset file_path] in
         case predicted_files w file_path of
           None \<Rightarrow> (Inl (FileNotFoundError file_path), events)
         | Some ds \<Rightarrow>
             (if ''draw'' \<in> dims ds \<and> length (draw_coord ds) \<noteq> 1
              then (Inl (ValueError ''draw''), events)
              else if ''scenario'' \<in> dims ds
              then (Inl (ValueError ''Dimension scenario already exists.''), events)
              else (Inr (ds\<lparr>dims := insert ''scenario'' (insert ''draw'' (dims ds)),
                            draw_coord := [draw], scenario_coord := [scenario]\<rparr>), events))))"

definition get_predicted_ds ::
  "'o world \<Rightarrow> string \<Rightarrow> int \<Rightarrow> string \<Rightarrow> int \<Rightarrow>
   (error + ('o dim_key_scheme, real) row dataset) \<times> io_event list" where
  "get_predicted_ds w cause scenario measure' draw =
     (case SCENARIO_MAP scenario of
        None \<Rightarrow> (Inl (KeyError (str_int scenario)), [])
      | Some scenario_second_name \<Rightarrow>
          (case MEASURE_MAP measure' of
             None \<Rightarrow> (Inl (KeyError measure'), [])
           | Some measure_second_name \<Rightarrow>
               (if cause = ''malaria'' then
                  open_predicted w
                    (''as_cause_'' @ cause @ ''_measure_'' @ measure_second_name @
                     ''_metric_count_ssp_scenario_'' @ scenario_second_name @
                     ''_dah_scenario_Baseline'') scenario draw
                else if cause = ''dengue'' then
                  open_predicted w
                    (''as_cause_'' @ cause @ ''_measure_'' @ measure_second_name @
                     ''_metric_count_ssp_scenario_'' @ scenario_second_name) scenario draw
                else
                  (Inl (UnboundLocalError ''draw_folder''),
                   [Print (''Unknown cause: '' @ cause @ '', only dengue or malaria available.'')]))))"

definition hierarchy_path :: string where
  "hierarchy_path =
     ''/mnt/team/rapidresponse/pub/malaria-denv/deliverables/2025_08_26_admin_2_counts/full_hierarchy_2023_lsae_1209.nc''"

definition load_in_hierarchy_dataset ::
  "'o world \<Rightarrow> (error + hierarchy_row list) \<times> io_event list" where
  "load_in_hierarchy_dataset w =
     (case hierarchy_files w hierarchy_path of
        None \<Rightarrow> (Inl (FileNotFoundError hierarchy_path), [OpenDataset hierarchy_path])
      | Some ds \<Rightarrow> (Inr (filter (\<lambda>h. h_level h = 5) ds), [OpenDataset hierarchy_path]))"

section \<open>Saving and the main function\<close>

definition output_dir :: string where
  "output_dir =
     ''/mnt/team/rapidresponse/pub/malaria-denv/deliverables/2025_08_26_admin_2_counts/output''"

text \<open>
  The directories are created, the dataset is written once, with \<open>to_netcdf\<close>, and
  the file is made group-writable. The message printed at the end starts with a check
  mark in the source, written \<open>[ok]\<close> here.
\<close>

definition save_raked_dataset_optimized ::
  "string \<Rightarrow> int \<Rightarrow> string \<Rightarrow> int \<Rightarrow> (error + unit) \<times> io_event list" where
  "save_raked_dataset_optimized cause scenario measure' draw =
     (case SCENARIO_MAP scenario of
        None \<Rightarrow> (Inl (KeyError (str_int scenario)), [])
      | Some scenario_name \<Rightarrow>
          (case SAVE_MEASURE_MAP measure' of
             None \<Rightarrow> (Inl (KeyError measure'), [])
           | Some measure_name \<Rightarrow>
               (let dirname =
                      (if cause = ''malaria''
                       then ''as_cause_'' @ cause @ ''_measure_'' @ measure_name @ ''_metric_count_'' @
                            ''ssp_scenario_'' @ scenario_name @ ''_dah_scenario_Baseline_raked''
                       else ''as_cause_'' @ cause @ ''_measure_'' @ measure_name @ ''_metric_count_'' @
                            ''ssp_scenario_'' @ scenario_name @ ''_raked'');
                    out_dir = output_dir @ ''/'' @ dirname;
                    outfile = out_dir @ ''/'' @ ''draw_'' @ str_int draw @ ''.nc''
                in (Inr (),
                    [Mkdir output_dir, Chmod output_dir, Mkdir out_dir, ToNetcdf outfile,
                     Chmod outfile, Print (''[ok] Saved: '' @ outfile)]))))"

text \<open>Sequencing: an error ends the run; the events accumulate.\<close>

definition and_then ::
  "(error + 'a) \<times> io_event list \<Rightarrow> ('a \<Rightarrow> (error + 'b) \<times> io_event list) \<Rightarrow>
   (error + 'b) \<times> io_event list" where
  "and_then m f =
     (case m of
        (Inl e, events) \<Rightarrow> (Inl e, events)
      | (Inr a, events) \<Rightarrow> (case f a of (r, later) \<Rightarrow> (r, events @ later)))"

text \<open>
  \<open>ds.transpose(*names)\<close> reorders the dimensions of the variables, which no later
  step sees; it raises \<open>ValueError\<close> unless the names are the dimensions of the dataset
  (no name at all asks for the reverse order).
\<close>

definition transpose_ds :: "'r dataset \<Rightarrow> string set \<Rightarrow> error + 'r dataset" where
  "transpose_ds ds names =
     (if names = {} \<or> names = dims ds then Inr ds
      else Inl (ValueError ''must be a permuted list of the dimensions''))"

definition main_raking_function ::
  "'o world \<Rightarrow> string \<Rightarrow> int \<Rightarrow> string \<Rightarrow> int \<Rightarrow>
   (error + ('o dim_key_scheme, real option) row dataset) \<times> io_event list" where
  "main_raking_function w cause scenario measure' draw =
     and_then (get_forcasted_ds w cause scenario measure' draw) (\<lambda>ds_admin1.
     and_then (get_predicted_ds w cause scenario measure' draw) (\<lambda>ds_admin2.
     let ds_admin2 = impute_location_ids ds_admin2 in
     and_then (transpose_ds ds_admin2 (dims ds_admin1), []) (\<lambda>ds_admin2.
     and_then (load_in_hierarchy_dataset w) (\<lambda>hierarchy.
     let ds_admin1 = subset_admin1_to_admin2_dims ds_admin1 ds_admin2 in
     and_then (subset_ds_to_admin2_locations hierarchy ds_admin2, []) (\<lambda>ds_admin2.
     and_then (attach_hierarchy ds_admin2 hierarchy, []) (\<lambda>ds_admin2.
     and_then (raking_steps ds_admin2 ds_admin1, []) (\<lambda>merged_ds.
     and_then (save_raked_dataset_optimized cause scenario measure' draw) (\<lambda>_.
     (Inr merged_ds, [])))))))))"

section \<open>The launcher\<close>

definition CAUSES :: "string list" where
  "CAUSES = [''malaria'', ''dengue'']"

definition SCENARIOS :: "int list" where
  "SCENARIOS = [0, 75, 76]"

definition MEASURES :: "string list" where
  "MEASURES = [''death'', ''incidence'', ''yll'', ''yld'']"

definition DRAWS :: "int list" where
  "DRAWS = map int [0..<100]"

definition check_if_path_draw_exists ::
  "'o world \<Rightarrow> string \<Rightarrow> int \<Rightarrow> string \<Rightarrow> int \<Rightarrow> error + bool" where
  "check_if_path_draw_exists w cause scenario measure' draw =
     (case SCENARIO_MAP scenario of
        None \<Rightarrow> Inl (KeyError (str_int scenario))
      | Some scenario_name \<Rightarrow>
          (let measure_name = (if measure' = ''death'' then ''mortality'' else measure');
               dirname =
                 (if cause = ''malaria''
                  then ''as_cause_'' @ cause @ ''_measure_'' @ measure_name @ ''_metric_count_'' @
                       ''ssp_scenario_'' @ scenario_name @ ''_dah_scenario_Baseline_raked''
                  else ''as_cause_'' @ cause @ ''_measure_'' @ measure_name @ ''_metric_count_'' @
                       ''ssp_scenario_'' @ scenario_name @ ''_raked'');
               filename = ''draw_'' @ str_int draw @ ''.nc'';
               output_name = output_dir @ ''/'' @ dirname @ ''/'' @ filename
           in Inr (path_exists w output_name)))"

text \<open>
  A task of the workflow is the command line of one run: its four node arguments. The
  list \<open>tasks\<close> is built by the four nested loops of the launcher.
\<close>

record task =
  task_cause :: string
  task_scenario :: int
  task_measure :: string
  task_draw :: int

definition create_task :: "string \<Rightarrow> int \<Rightarrow> string \<Rightarrow> int \<Rightarrow> task" where
  "create_task cause scenario measure' draw =
     \<lparr>task_cause = cause, task_scenario = scenario, task_measure = measure', task_draw = draw\<rparr>"

definition tasks :: "task list" where
  "tasks =
     concat (map (\<lambda>cause.
       concat (map (\<lambda>scenario.
         concat (map (\<lambda>measure'.
           map (\<lambda>draw. create_task cause scenario measure' draw) DRAWS)
         MEASURES))
       SCENARIOS))
     CAUSES)"

text \<open>The events that touch the file system (everything but printing).\<close>

fun file_access :: "io_event \<Rightarrow> bool" where
  "file_access (Print _) = False"
| "file_access _ = True"

text \<open>
  Two coarse-level files with the same dimensions, axes and entities whose values agree
  wherever the label on the \<open>draw\<close> axis is \<open>draw\<close>.
\<close>

definition same_on_draw ::
  "int \<Rightarrow> ('o dim_key_scheme, real) row dataset \<Rightarrow> ('o dim_key_scheme, real) row dataset \<Rightarrow> bool" where
  "same_on_draw draw f g \<longleftrightarrow>
     dims g = dims f \<and>
     age_group_id g = age_group_id f \<and> sex_id g = sex_id f \<and> draw_coord g = draw_coord f \<and>
     scenario_coord g = scenario_coord f \<and>
     list_all2 (\<lambda>r s. location_id s = location_id r \<and>
                       (\<forall>k. key_draw k = draw \<longrightarrow> val s k = val r k))
               (rows f) (rows g)"


section \<open>A worked example\<close>

text \<open>
  The scenario of the specification: the coarse entity 1 with the value 100 and its
  children 11 and 12 with the values 30 and 20, the entity 13 whose parent 99 is not a
  coarse entity, and in addition the coarse entity 4 with the value 0 and its child 14.
\<close>

definition ex_dims :: "string set" where
  "ex_dims = insert ''scenario'' (insert ''draw'' {''location_id'', ''age_group_id'', ''sex_id''})"

definition ex_key :: dim_key where
  "ex_key = \<lparr>key_age_group_id = 1, key_sex_id = 1, key_draw = 0, key_scenario = 0\<rparr>"

definition ex_admin2 :: "(dim_key, real) hrow dataset" where
  "ex_admin2 = \<lparr>dims = ex_dims, age_group_id = [1], sex_id = [1], draw_coord = [0],
     scenario_coord = [0],
     rows = [\<lparr>location_id = 11, val = (\<lambda>_. 30), parent_id = 1\<rparr>,
             \<lparr>location_id = 12, val = (\<lambda>_. 20), parent_id = 1\<rparr>,
             \<lparr>location_id = 13, val = (\<lambda>_. 5), parent_id = 99\<rparr>,
             \<lparr>location_id = 14, val = (\<lambda>_. 6), parent_id = 4\<rparr>]\<rparr>"

definition ex_admin1 :: "(dim_key, real) row dataset" where
  "ex_admin1 = \<lparr>dims = ex_dims, age_group_id = [1], sex_id = [1], draw_coord = [0],
     scenario_coord = [0],
     rows = [\<lparr>location_id = 1, val = (\<lambda>_. 100)\<rparr>, \<lparr>location_id = 2, val = (\<lambda>_. 7)\<rparr>,
             \<lparr>location_id = 4, val = (\<lambda>_. 0)\<rparr>]\<rparr>"

definition ex_with_parent :: "(dim_key, real) hrow dataset" where
  "ex_with_parent = \<lparr>dims = ex_dims, age_group_id = [1], sex_id = [1], draw_coord = [0],
     scenario_coord = [0],
     rows = [\<lparr>location_id = 11, val = (\<lambda>_. 30), parent_id = 1\<rparr>,
             \<lparr>location_id = 12, val = (\<lambda>_. 20), parent_id = 1\<rparr>,
             \<lparr>location_id = 14, val = (\<lambda>_. 6), parent_id = 4\<rparr>]\<rparr>"

definition ex_without_parent :: "(dim_key, real) hrow dataset" where
  "ex_without_parent = \<lparr>dims = ex_dims, age_group_id = [1], sex_id = [1], draw_coord = [0],
     scenario_coord = [0],
     rows = [\<lparr>location_id = 13, val = (\<lambda>_. 5), parent_id = 99\<rparr>]\<rparr>"

definition ex_admin1_with_parent :: "(dim_key, real) row dataset" where
  "ex_admin1_with_parent = \<lparr>dims = ex_dims, age_group_id = [1], sex_id = [1], draw_coord = [0],
     scenario_coord = [0],
     rows = [\<lparr>location_id = 1, val = (\<lambda>_. 100)\<rparr>, \<lparr>location_id = 4, val = (\<lambda>_. 0)\<rparr>]\<rparr>"

definition ex_admin1_without_parent :: "(dim_key, real) row dataset" where
  "ex_admin1_without_parent = \<lparr>dims = ex_dims, age_group_id = [1], sex_id = [1], draw_coord = [0],
     scenario_coord = [0],
     rows = [\<lparr>location_id = 2, val = (\<lambda>_. 7)\<rparr>]\<rparr>"

definition ex_impute :: "(dim_key, real) row dataset" where
  "ex_impute = \<lparr>dims = ex_dims, age_group_id = [1], sex_id = [1], draw_coord = [0],
     scenario_coord = [0],
     rows = [\<lparr>location_id = 95069, val = (\<lambda>_. 5)\<rparr>, \<lparr>location_id = 7, val = (\<lambda>_. 1)\<rparr>,
             \<lparr>location_id = 60908, val = (\<lambda>_. 7)\<rparr>]\<rparr>"

definition ex_world :: "unit world" where
  "ex_world = \<lparr>directories = {}, forecast_files = (\<lambda>_. None), predicted_files = (\<lambda>_. None),
                hierarchy_files = (\<lambda>_. None), output_files = {}\<rparr>"

definition ex_done_world :: "unit world" where
  "ex_done_world = ex_world\<lparr>output_files :=
     {''/mnt/team/rapidresponse/pub/malaria-denv/deliverables/2025_08_26_admin_2_counts/output/as_cause_malaria_measure_mortality_metric_count_ssp_scenario_ssp245_dah_scenario_Baseline_raked/draw_0.nc''}\<rparr>"

text \<open>
  A file system for one run: the coarse-level file for malaria deaths under scenario 0
  with the draws 0 and 1 and the scenario 0, the fine-level file of draw 0, which has
  neither a \<open>draw\<close> nor a \<open>scenario\<close> dimension, and the hierarchy. \<open>ex_fine\<close> is the
  fine-level table as \<open>get_predicted_ds\<close> returns it.
\<close>

definition ex_forecast :: "(dim_key, real) row dataset" where
  "ex_forecast = ex_admin1\<lparr>draw_coord := [0, 1]\<rparr>"

definition ex_forecast_other :: "(dim_key, real) row dataset" where
  "ex_forecast_other = ex_forecast\<lparr>rows :=
     map (\<lambda>r. r\<lparr>val := (\<lambda>k. if key_draw k = 0 then val r k else val r k + 1)\<rparr>) (rows ex_forecast)\<rparr>"

definition ex_predicted :: "(dim_key, real) row dataset" where
  "ex_predicted = \<lparr>dims = {''location_id'', ''age_group_id'', ''sex_id''},
     age_group_id = [1], sex_id = [1], draw_coord = [], scenario_coord = [],
     rows = [\<lparr>location_id = 11, val = (\<lambda>_. 30)\<rparr>, \<lparr>location_id = 12, val = (\<lambda>_. 20)\<rparr>,
             \<lparr>location_id = 13, val = (\<lambda>_. 5)\<rparr>, \<lparr>location_id = 14, val = (\<lambda>_. 6)\<rparr>]\<rparr>"

definition ex_fine :: "(dim_key, real) row dataset" where
  "ex_fine = \<lparr>dims = ex_dims, age_group_id = [1], sex_id = [1], draw_coord = [0],
     scenario_coord = [0],
     rows = [\<lparr>location_id = 11, val = (\<lambda>_. 30)\<rparr>, \<lparr>location_id = 12, val = (\<lambda>_. 20)\<rparr>,
             \<lparr>location_id = 13, val = (\<lambda>_. 5)\<rparr>, \<lparr>location_id = 14, val = (\<lambda>_. 6)\<rparr>]\<rparr>"

definition ex_hierarchy :: "hierarchy_row list" where
  "ex_hierarchy =
     [\<lparr>h_location_id = 1, h_level = 4, h_parent_id = 0\<rparr>,
      \<lparr>h_location_id = 11, h_level = 5, h_parent_id = 1\<rparr>,
      \<lparr>h_location_id = 12, h_level = 5, h_parent_id = 1\<rparr>,
      \<lparr>h_location_id = 13, h_level = 5, h_parent_id = 99\<rparr>,
      \<lparr>h_location_id = 14, h_level = 5, h_parent_id = 4\<rparr>]"

definition ex_forecast_file :: string where
  "ex_forecast_file = forecast_path ''death''
     ''20250709_first_sub_rcp45_climate_ref_100d_hiv_shocks_covid_all_s8_num'' ''malaria.nc''"

definition ex_predicted_folder :: string where
  "ex_predicted_folder = predicted_main_dir @
     ''as_cause_malaria_measure_mortality_metric_count_ssp_scenario_ssp245_dah_scenario_Baseline''"

definition ex_run_world :: "unit world" where
  "ex_run_world =
     \<lparr>directories = {ex_predicted_folder},
      forecast_files = (\<lambda>p. if p = ex_forecast_file then Some ex_forecast else None),
      predicted_files = (\<lambda>p. if p = ex_predicted_folder @ ''/draw_0.nc'' then Some ex_predicted else None),
      hierarchy_files = (\<lambda>p. if p = hierarchy_path then Some ex_hierarchy else None),
      output_files = {}\<rparr>"

text \<open>
  A file system for a run in which no fine-level entity has its parent among the coarse
  entities: the fine-level file holds the entity 13 only, a child of the entity 99, and
  the coarse-level file holds the entities 1, 2 and 4. \<open>ex_orphans_fine\<close> is the
  fine-level table as \<open>get_predicted_ds\<close> returns it, \<open>ex_orphans\<close> the same with the
  hierarchy attached.
\<close>

definition ex_orphans :: "(dim_key, real) hrow dataset" where
  "ex_orphans = \<lparr>dims = ex_dims, age_group_id = [1], sex_id = [1], draw_coord = [0],
     scenario_coord = [0],
     rows = [\<lparr>location_id = 13, val = (\<lambda>_. 5), parent_id = 99\<rparr>]\<rparr>"

definition ex_orphans_predicted :: "(dim_key, real) row dataset" where
  "ex_orphans_predicted = \<lparr>dims = {''location_id'', ''age_group_id'', ''sex_id''},
     age_group_id = [1], sex_id = [1], draw_coord = [], scenario_coord = [],
     rows = [\<lparr>location_id = 13, val = (\<lambda>_. 5)\<rparr>]\<rparr>"

definition ex_orphans_fine :: "(dim_key, real) row dataset" where
  "ex_orphans_fine = \<lparr>dims = ex_dims, age_group_id = [1], sex_id = [1], draw_coord = [0],
     scenario_coord = [0],
     rows = [\<lparr>location_id = 13, val = (\<lambda>_. 5)\<rparr>]\<rparr>"

definition ex_orphans_world :: "unit world" where
  "ex_orphans_world =
     \<lparr>directories = {ex_predicted_folder},
      forecast_files = (\<lambda>p. if p = ex_forecast_file then Some ex_forecast else None),
      predicted_files = (\<lambda>p. if p = ex_predicted_folder @ ''/draw_0.nc''
                             then Some ex_orphans_predicted else None),
      hierarchy_files = (\<lambda>p. if p = hierarchy_path then Some ex_hierarchy else None),
      output_files = {}\<rparr>"

section \<open>Properties of the raking steps\<close>

subsection \<open>Auxiliary facts\<close>

lemma set_set_inter_list: "set (set_inter_list xs ys) = set xs \<inter> set ys"
  by (auto simp: set_inter_list_def)

lemma distinct_set_inter_list: "distinct (set_inter_list xs ys)"
  by (simp add: set_inter_list_def)

lemma set_set_diff_list: "set (set_diff_list xs ys) = set xs - set ys"
  by (auto simp: set_diff_list_def)

lemma lookup_None_iff: "lookup i rs = None \<longleftrightarrow> i \<notin> location_id ` set rs"
  by (auto simp: lookup_def find_None_iff)

lemma lookup_SomeD: "lookup i rs = Some r \<Longrightarrow> r \<in> set rs \<and> location_id r = i"
  by (auto simp: lookup_def find_Some_iff)

lemma lookup_map:
  assumes "\<And>r. location_id (f r) = location_id r"
  shows "lookup i (map f rs) = map_option f (lookup i rs)"
  using assms by (induction rs) (auto simp: lookup_def)

lemma lookup_map_key:
  assumes "\<And>p. p \<in> set ps \<Longrightarrow> location_id (g p) = p"
  shows "lookup i (map g ps) = (if i \<in> set ps then Some (g i) else None)"
  using assms by (induction ps) (auto simp: lookup_def)

lemma sel_total:
  "set ids \<subseteq> location_id ` set rs \<Longrightarrow> sel ids rs = Inr (map (\<lambda>i. the (lookup i rs)) ids)"
proof (induction ids)
  case Nil
  then show ?case by simp
next
  case (Cons i ids)
  then obtain r where "lookup i rs = Some r"
    using lookup_None_iff[of i rs] by (cases "lookup i rs") auto
  with Cons show ?case by simp
qed

lemma lookup_sel_rows:
  assumes "set ids \<subseteq> location_id ` set rs"
  shows "lookup i (map (\<lambda>j. the (lookup j rs)) ids) = (if i \<in> set ids then lookup i rs else None)"
proof -
  have *: "location_id (the (lookup j rs)) = j \<and> lookup j rs = Some (the (lookup j rs))" if "j \<in> set ids" for j
  proof -
    from that assms obtain r where "lookup j rs = Some r"
      using lookup_None_iff[of j rs] by (cases "lookup j rs") auto
    then show ?thesis using lookup_SomeD by fastforce
  qed
  show ?thesis
    using lookup_map_key[of ids "\<lambda>j. the (lookup j rs)" i] * by auto
qed

lemma split_ds_admin1_total:
  "split_ds_admin1 a2 a1 =
     Inr (a1\<lparr>rows := map (\<lambda>i. the (lookup i (rows a1)))
                       (set_inter_list (map parent_id (rows a2)) (map location_id (rows a1)))\<rparr>,
          a1\<lparr>rows := map (\<lambda>i. the (lookup i (rows a1)))
                       (set_diff_list (map location_id (rows a1))
                          (set_inter_list (map parent_id (rows a2)) (map location_id (rows a1))))\<rparr>)"
proof -
  let ?c = "set_inter_list (map parent_id (rows a2)) (map location_id (rows a1))"
  let ?d = "set_diff_list (map location_id (rows a1)) ?c"
  have c: "set ?c \<subseteq> location_id ` set (rows a1)"
    by (auto simp: set_set_inter_list)
  have d: "set ?d \<subseteq> location_id ` set (rows a1)"
    by (auto simp: set_set_diff_list)
  show ?thesis
    unfolding split_ds_admin1_def Let_def by (simp add: sel_total[OF c] sel_total[OF d])
qed

lemma lookup_admin1_with:
  assumes "split_ds_admin1 a2 a1 = Inr (a1w, a1wo)"
  shows "lookup i (rows a1w) = (if i \<in> parent_id ` set (rows a2) then lookup i (rows a1) else None)"
proof -
  let ?c = "set_inter_list (map parent_id (rows a2)) (map location_id (rows a1))"
  have c: "set ?c \<subseteq> location_id ` set (rows a1)"
    by (auto simp: set_set_inter_list)
  have "rows a1w = map (\<lambda>i. the (lookup i (rows a1))) ?c"
    using assms unfolding split_ds_admin1_total by auto
  then show ?thesis
    using lookup_sel_rows[OF c, of i] lookup_None_iff[of i "rows a1"]
    by (auto simp: set_set_inter_list)
qed

lemma groupby_parent_sum_rows:
  assumes "groupby_parent_sum rs = Inr tot"
  shows "rs \<noteq> []"
    and "lookup p tot =
     (if p \<in> parent_id ` set rs then Some \<lparr>location_id = p, val = children_sum rs p\<rparr> else None)"
proof -
  show ne: "rs \<noteq> []"
    using assms by (auto simp: groupby_parent_sum_def)
  have "tot = map (\<lambda>p. \<lparr>location_id = p,
                         val = (\<lambda>k. \<Sum>r \<leftarrow> filter (\<lambda>r. parent_id r = p) rs. val r k)\<rparr>)
                   (sort (remdups (map parent_id rs)))"
    using assms ne by (simp add: groupby_parent_sum_def)
  then show "lookup p tot =
     (if p \<in> parent_id ` set rs then Some \<lparr>location_id = p, val = children_sum rs p\<rparr> else None)"
    by (simp only:) (subst lookup_map_key, auto simp: children_sum_def fun_eq_iff)
qed

lemma lookup_reindex:
  "lookup i (reindex rs ids) =
     (if i \<in> set ids
      then Some \<lparr>location_id = i,
                 val = (case lookup i rs of None \<Rightarrow> (\<lambda>k. None) | Some r \<Rightarrow> (\<lambda>k. Some (val r k)))\<rparr>
      else None)"
  unfolding reindex_def by (subst lookup_map_key) auto

text \<open>The factor step fails exactly on a with-parent partition without rows.\<close>

lemma sum_and_align_empty:
  assumes "rows ds2 = []"
  shows "sum_and_align_admin2_totals ds2 ds1 = Inl (ValueError ''parent_id must not be empty'')"
  using assms by (simp add: sum_and_align_admin2_totals_def groupby_parent_sum_def)

lemma sum_and_align_total:
  assumes "rows ds2 \<noteq> []"
  shows "\<exists>factor. sum_and_align_admin2_totals ds2 ds1 = Inr factor"
  using assms by (simp add: sum_and_align_admin2_totals_def groupby_parent_sum_def Let_def)

lemma sum_and_align_coords:
  assumes "sum_and_align_admin2_totals ds2 ds1 = Inr factor"
  shows "age_group_id factor = common_labels (age_group_id ds1) (age_group_id ds2)"
    and "sex_id factor = common_labels (sex_id ds1) (sex_id ds2)"
    and "draw_coord factor = common_labels (draw_coord ds1) (draw_coord ds2)"
    and "scenario_coord factor = common_labels (scenario_coord ds1) (scenario_coord ds2)"
    and "dims factor = dims ds1 \<union> dims ds2"
    and "rows ds2 \<noteq> []"
  using assms
  by (auto simp: sum_and_align_admin2_totals_def groupby_parent_sum_def Let_def split: if_splits)

lemma lookup_factor:
  assumes "lookup i (rows ds1) = Some r"
    and "sum_and_align_admin2_totals ds2 ds1 = Inr factor"
  shows "\<exists>f. lookup i (rows factor) = Some f \<and>
             val f k = (if i \<in> parent_id ` set (rows ds2)
                        then Some (if children_sum (rows ds2) i k = 0 \<or> val r k = 0 then 1
                                   else val r k / children_sum (rows ds2) i k)
                        else if val r k = 0 then Some 1 else None)"
proof -
  have i: "location_id r = i" "i \<in> location_id ` set (rows ds1)"
    using lookup_SomeD[OF assms(1)] by auto
  obtain tot where g: "groupby_parent_sum (rows ds2) = Inr tot"
    using assms(2) by (auto simp: sum_and_align_admin2_totals_def split: sum.splits)
  have "factor =
     (let admin1_ids = map location_id (rows ds1);
          admin2_sums_aligned = reindex tot admin1_ids;
          aligned = (\<lambda>i k. case lookup i admin2_sums_aligned of None \<Rightarrow> None | Some s \<Rightarrow> val s k);
          factor = map (\<lambda>r. \<lparr>location_id = location_id r,
                              val = (\<lambda>k. xr_where
                                           (eq0 (aligned (location_id r) k) \<or> val r k = 0)
                                           (Some 1)
                                           (fdiv (Some (val r k))
                                                 (xr_where (eq0 (aligned (location_id r) k))
                                                           (Some 1)
                                                           (aligned (location_id r) k))))\<rparr>)
                       (rows ds1)
      in \<lparr>dims = dims ds1 \<union> dims ds2,
              age_group_id = common_labels (age_group_id ds1) (age_group_id ds2),
              sex_id = common_labels (sex_id ds1) (sex_id ds2),
              draw_coord = common_labels (draw_coord ds1) (draw_coord ds2),
              scenario_coord = common_labels (scenario_coord ds1) (scenario_coord ds2),
              rows = factor\<rparr>)"
    using assms(2) unfolding sum_and_align_admin2_totals_def g by (auto simp: Let_def)
  then show ?thesis
    unfolding Let_def
    apply (simp add: lookup_map assms(1))
    apply (simp add: lookup_reindex groupby_parent_sum_rows(2)[OF g] i xr_where_def eq0_def fdiv_def)
    done
qed

lemma broadcast_rows_total:
  assumes "\<forall>r\<in>set rs. lookup (parent_id r) factor \<noteq> None"
  shows "broadcast_rows rs factor =
           Inr (map (\<lambda>r. \<lparr>location_id = location_id r,
                            val = (\<lambda>k. fmul (Some (val r k)) (val (the (lookup (parent_id r) factor)) k)),
                            parent_id = parent_id r\<rparr>) rs)"
  using assms by (induction rs) auto

lemma split_ds_admin2_rows:
  assumes "split_ds_admin2 a2 a1 = (w, wo)"
  shows "rows w = filter (\<lambda>r. parent_id r \<in> location_id ` set (rows a1)) (rows a2)"
    and "rows wo = filter (\<lambda>r. parent_id r \<notin> location_id ` set (rows a1)) (rows a2)"
proof -
  have "\<And>r. r \<in> set (rows a2) \<Longrightarrow>
          parent_id r \<in> set (set_inter_list (map parent_id (rows a2)) (map location_id (rows a1)))
          \<longleftrightarrow> parent_id r \<in> location_id ` set (rows a1)"
    by (auto simp: set_set_inter_list)
  then have *: "filter (\<lambda>r. parent_id r \<in> set (set_inter_list (map parent_id (rows a2)) (map location_id (rows a1)))) (rows a2)
            = filter (\<lambda>r. parent_id r \<in> location_id ` set (rows a1)) (rows a2)"
       and **: "filter (\<lambda>r. parent_id r \<notin> set (set_inter_list (map parent_id (rows a2)) (map location_id (rows a1)))) (rows a2)
            = filter (\<lambda>r. parent_id r \<notin> location_id ` set (rows a1)) (rows a2)"
    by (auto intro!: filter_cong)
  show "rows w = filter (\<lambda>r. parent_id r \<in> location_id ` set (rows a1)) (rows a2)"
    using assms * unfolding split_ds_admin2_def Let_def by auto
  show "rows wo = filter (\<lambda>r. parent_id r \<notin> location_id ` set (rows a1)) (rows a2)"
    using assms ** unfolding split_ds_admin2_def Let_def by auto
qed

text \<open>
  The with-parent partition has a row exactly when some fine-level row has its parent
  among the coarse entities.
\<close>

lemma with_parent_rows_iff:
  assumes "split_ds_admin2 a2 a1 = (w, wo)"
  shows "rows w \<noteq> [] \<longleftrightarrow> (\<exists>r\<in>set (rows a2). parent_id r \<in> location_id ` set (rows a1))"
  unfolding split_ds_admin2_rows(1)[OF assms] by (auto simp: filter_empty_conv)

lemma with_parent_has_factor:
  assumes "split_ds_admin2 a2 a1 = (w, wo)" and "split_ds_admin1 a2 a1 = Inr (a1w, a1wo)"
    and "r \<in> set (rows w)"
  shows "\<exists>c. lookup (parent_id r) (rows a1w) = Some c"
proof -
  have "parent_id r \<in> location_id ` set (rows a1)" "r \<in> set (rows a2)"
    using assms(3) unfolding split_ds_admin2_rows(1)[OF assms(1)] by auto
  then show ?thesis
    using lookup_admin1_with[OF assms(2), of "parent_id r"] lookup_None_iff[of "parent_id r" "rows a1"]
    by (cases "lookup (parent_id r) (rows a1)") auto
qed

lemma coarse_with_parent_has_child:
  assumes "split_ds_admin2 a2 a1 = (w, wo)" and "split_ds_admin1 a2 a1 = Inr (a1w, a1wo)"
    and "lookup i (rows a1w) = Some c"
  shows "i \<in> parent_id ` set (rows w)"
proof -
  have "i \<in> parent_id ` set (rows a2)" "lookup i (rows a1) = Some c"
    using lookup_admin1_with[OF assms(2), of i] assms(3) by (auto split: if_splits)
  then have "i \<in> location_id ` set (rows a1)"
    using lookup_None_iff[of i "rows a1"] by auto
  then show ?thesis
    using \<open>i \<in> parent_id ` set (rows a2)\<close>
    unfolding split_ds_admin2_rows(1)[OF assms(1)] by force
qed

lemma broadcast_total:
  assumes "split_ds_admin2 a2 a1 = (w, wo)" and "split_ds_admin1 a2 a1 = Inr (a1w, a1wo)"
    and "sum_and_align_admin2_totals w a1w = Inr factor"
  shows "broadcast_rows (rows w) (rows factor) =
           Inr (map (\<lambda>r. \<lparr>location_id = location_id r,
                            val = (\<lambda>k. fmul (Some (val r k))
                                     (val (the (lookup (parent_id r) (rows factor))) k)),
                            parent_id = parent_id r\<rparr>) (rows w))"
proof (rule broadcast_rows_total, rule ballI)
  fix r assume "r \<in> set (rows w)"
  then obtain c where "lookup (parent_id r) (rows a1w) = Some c"
    using with_parent_has_factor[OF assms(1,2)] by blast
  then show "lookup (parent_id r) (rows factor) \<noteq> None"
    using lookup_factor[of "parent_id r" a1w c w factor] assms(3) by auto
qed

lemma raked_cell:
  assumes "split_ds_admin2 a2 a1 = (w, wo)" and "split_ds_admin1 a2 a1 = Inr (a1w, a1wo)"
    and "r \<in> set (rows w)" and "lookup (parent_id r) (rows a1w) = Some c"
    and "sum_and_align_admin2_totals w a1w = Inr factor"
  shows "fmul (Some (val r k)) (val (the (lookup (parent_id r) (rows factor))) k)
         = Some (val r k * (if children_sum (rows w) (parent_id r) k = 0 \<or> val c k = 0 then 1
                            else val c k / children_sum (rows w) (parent_id r) k))"
proof -
  obtain f where f: "lookup (parent_id r) (rows factor) = Some f"
      "val f k = Some (if children_sum (rows w) (parent_id r) k = 0 \<or> val c k = 0 then 1
                                   else val c k / children_sum (rows w) (parent_id r) k)"
    using lookup_factor[OF assms(4,5), of k] assms(3) by auto
  show ?thesis by (simp add: f fmul_def)
qed

lemma raked_children_sum_map:
  "raked_children_sum (map (\<lambda>r. \<lparr>location_id = location_id r, val = (\<lambda>k. Some (g r k)), parent_id = parent_id r\<rparr>) rs) p k
     = Some (\<Sum>r \<leftarrow> filter (\<lambda>r. parent_id r = p) rs. g r k)"
  unfolding raked_children_sum_def
  by (induction rs) (auto simp: fadd_def)

lemma broadcast_rows_form:
  assumes "split_ds_admin2 a2 a1 = (w, wo)" and "split_ds_admin1 a2 a1 = Inr (a1w, a1wo)"
    and "sum_and_align_admin2_totals w a1w = Inr factor"
  shows "broadcast_rows (rows w) (rows factor) = Inr (raked_rows_of w a1w)"
  unfolding broadcast_total[OF assms] raked_rows_of_def
proof (simp, intro ballI ext)
  fix r k assume r: "r \<in> set (rows w)"
  then obtain c where c: "lookup (parent_id r) (rows a1w) = Some c"
    using with_parent_has_factor[OF assms(1,2)] by blast
  show "fmul (Some (val r k)) (val (the (lookup (parent_id r) (rows factor))) k) =
        Some (val r k * (if children_sum (rows w) (parent_id r) k = 0 \<or>
                 val (the (lookup (parent_id r) (rows a1w))) k = 0 then 1
              else val (the (lookup (parent_id r) (rows a1w))) k / children_sum (rows w) (parent_id r) k))"
    using raked_cell[OF assms(1,2) r c assms(3), of k] c by simp
qed

lemma broadcast_form:
  assumes "split_ds_admin2 a2 a1 = (w, wo)" and "split_ds_admin1 a2 a1 = Inr (a1w, a1wo)"
    and "rows w \<noteq> []"
  shows "\<exists>factor rv. sum_and_align_admin2_totals w a1w = Inr factor \<and>
              broadcast_factor_to_admin2 w factor = Inr rv \<and>
              rows rv = raked_rows_of w a1w \<and>
              age_group_id rv = common_labels (age_group_id w)
                 (common_labels (age_group_id a1w) (age_group_id w)) \<and>
              sex_id rv = common_labels (sex_id w) (common_labels (sex_id a1w) (sex_id w)) \<and>
              draw_coord rv = common_labels (draw_coord w)
                 (common_labels (draw_coord a1w) (draw_coord w)) \<and>
              scenario_coord rv = common_labels (scenario_coord w)
                 (common_labels (scenario_coord a1w) (scenario_coord w)) \<and>
              dims rv = dims w \<union> dims a1w"
proof -
  obtain factor where sa: "sum_and_align_admin2_totals w a1w = Inr factor"
    using sum_and_align_total[OF assms(3)] by blast
  have "broadcast_factor_to_admin2 w factor =
          Inr \<lparr>dims = dims w \<union> dims factor,
               age_group_id = common_labels (age_group_id w) (age_group_id factor),
               sex_id = common_labels (sex_id w) (sex_id factor),
               draw_coord = common_labels (draw_coord w) (draw_coord factor),
               scenario_coord = common_labels (scenario_coord w) (scenario_coord factor),
               rows = raked_rows_of w a1w\<rparr>"
    by (simp add: broadcast_factor_to_admin2_def broadcast_rows_form[OF assms(1,2) sa])
  then show ?thesis
    using sa by (auto simp: sum_and_align_coords[OF sa])
qed

lemma raking_steps_rows:
  assumes "split_ds_admin2 a2 a1 = (w, wo)" and "rows w \<noteq> []"
  shows "\<exists>out raked. raking_steps a2 a1 = Inr out \<and> length raked = length (rows w) \<and>
           map location_id raked = map location_id (rows w) \<and>
           rows out = raked @ map (\<lambda>r. \<lparr>location_id = location_id r, val = (\<lambda>k. Some (val r k))\<rparr>) (rows wo)"
proof -
  obtain a1w a1wo where s1: "split_ds_admin1 a2 a1 = Inr (a1w, a1wo)"
    using split_ds_admin1_total[of a2 a1] by blast
  obtain factor rv where sa: "sum_and_align_admin2_totals w a1w = Inr factor"
      and b: "broadcast_factor_to_admin2 w factor = Inr rv"
    using broadcast_form[OF assms(1) s1 assms(2)] by blast
  show ?thesis
    by (simp add: raking_steps_def assms s1 Let_def sa b
        drop_data_variables_def merge_raked_and_unraked_admin2_dask_def
        build_raked_dataset_def o_def)
qed

text \<open>
  When no fine-level row has its parent among the coarse entities, the with-parent
  partition has no row, grouping it raises \<open>ValueError\<close>, and the raking steps return
  no table.
\<close>

lemma raking_steps_without_parents:
  assumes "\<forall>r\<in>set (rows a2). parent_id r \<notin> location_id ` set (rows a1)"
  shows "raking_steps a2 a1 = Inl (ValueError ''parent_id must not be empty'')"
proof -
  obtain w wo where s2: "split_ds_admin2 a2 a1 = (w, wo)"
    by (cases "split_ds_admin2 a2 a1")
  obtain a1w a1wo where s1: "split_ds_admin1 a2 a1 = Inr (a1w, a1wo)"
    using split_ds_admin1_total[of a2 a1] by blast
  have "rows w = []"
    using with_parent_rows_iff[OF s2] assms by auto
  then show ?thesis
    by (simp add: raking_steps_def s2 s1 sum_and_align_empty)
qed

text \<open>
  When the raking steps return, the merged table ends with the rows of the
  without-parent partition, values unchanged (no factor is applied to them), and every
  fine-level row whose \<open>parent_id\<close> is not an entity of the coarse table is among them.
\<close>

lemma passthrough_when_raked:
  assumes "split_ds_admin2 ds_admin2 ds_admin1 = (w, wo)" and "rows w \<noteq> []"
  shows "\<exists>out raked. raking_steps ds_admin2 ds_admin1 = Inr out \<and>
           rows out = raked @ map (\<lambda>r. \<lparr>location_id = location_id r, val = (\<lambda>k. Some (val r k))\<rparr>) (rows wo) \<and>
           (\<forall>r \<in> set (rows ds_admin2). parent_id r \<notin> location_id ` set (rows ds_admin1) \<longrightarrow>
              r \<in> set (rows wo) \<and>
              \<lparr>location_id = location_id r, val = (\<lambda>k. Some (val r k))\<rparr> \<in> set (rows out))"
proof -
  obtain out raked where o: "raking_steps ds_admin2 ds_admin1 = Inr out"
      "rows out = raked @ map (\<lambda>r. \<lparr>location_id = location_id r, val = (\<lambda>k. Some (val r k))\<rparr>) (rows wo)"
    using raking_steps_rows[OF assms] by blast
  show ?thesis
    using o unfolding split_ds_admin2_rows(2)[OF assms(1)] by auto
qed

lemma ex_split2:
  "split_ds_admin2 ex_admin2 ex_admin1 = (ex_with_parent, ex_without_parent)"
  by (simp add: split_ds_admin2_def ex_admin2_def ex_admin1_def set_inter_list_def
      ex_with_parent_def ex_without_parent_def)

lemma ex_split1:
  "split_ds_admin1 ex_admin2 ex_admin1 = Inr (ex_admin1_with_parent, ex_admin1_without_parent)"
  by (simp add: split_ds_admin1_def ex_admin2_def ex_admin1_def set_inter_list_def
      set_diff_list_def lookup_def ex_admin1_with_parent_def ex_admin1_without_parent_def)

subsection \<open>The claims about the raking steps\<close>

text \<open>
  Claim C1 (conservation). Take a coarse entity \<open>p\<close> that is the parent of a row of the
  with-parent fine partition and has a row \<open>c\<close> in the restricted coarse table. For a
  dimension combination \<open>k\<close> at which the coarse value and the sum of the children's
  values are both non-zero, the factor step and the broadcast succeed and the sum of the
  raked values of the children of \<open>p\<close> at \<open>k\<close> is the coarse value, a number and not
  NaN.
\<close>

theorem conservation:
  assumes "split_ds_admin2 ds_admin2 ds_admin1 = (w, wo)"
    and "split_ds_admin1 ds_admin2 ds_admin1 = Inr (a1w, a1wo)"
    and "p \<in> parent_id ` set (rows w)"
    and "lookup p (rows a1w) = Some c"
    and "val c k \<noteq> 0"
    and "children_sum (rows w) p k \<noteq> 0"
  shows "\<exists>factor raked_values.
           sum_and_align_admin2_totals w a1w = Inr factor \<and>
           broadcast_factor_to_admin2 w factor = Inr raked_values \<and>
           raked_children_sum (rows raked_values) p k = Some (val c k)"
proof -
  let ?fac = "\<lambda>r k. if children_sum (rows w) (parent_id r) k = 0 \<or>
                         val (the (lookup (parent_id r) (rows a1w))) k = 0 then 1
                      else val (the (lookup (parent_id r) (rows a1w))) k /
                           children_sum (rows w) (parent_id r) k"
  have ne: "rows w \<noteq> []" using assms(3) by auto
  obtain factor rv where sa: "sum_and_align_admin2_totals w a1w = Inr factor"
      and b: "broadcast_factor_to_admin2 w factor = Inr rv"
      and rv: "rows rv = raked_rows_of w a1w"
    using broadcast_form[OF assms(1,2) ne] by blast
  have "raked_children_sum (rows rv) p k =
          Some (\<Sum>r \<leftarrow> filter (\<lambda>r. parent_id r = p) (rows w). val r k * ?fac r k)"
    unfolding rv raked_rows_of_def by (rule raked_children_sum_map)
  also have "(\<Sum>r \<leftarrow> filter (\<lambda>r. parent_id r = p) (rows w). val r k * ?fac r k) =
             (\<Sum>r \<leftarrow> filter (\<lambda>r. parent_id r = p) (rows w).
                 val r k * (val c k / children_sum (rows w) p k))"
    using assms(4,5,6) by (intro arg_cong[where f=sum_list] map_cong) auto
  also have "\<dots> = children_sum (rows w) p k * (val c k / children_sum (rows w) p k)"
    by (simp only: children_sum_def sum_list_mult_const)
  also have "\<dots> = val c k"
    using assms(6) by simp
  finally show ?thesis using sa b by blast
qed

theorem conservation_witness:
  "split_ds_admin2 ex_admin2 ex_admin1 = (ex_with_parent, ex_without_parent) \<and>
   split_ds_admin1 ex_admin2 ex_admin1 = Inr (ex_admin1_with_parent, ex_admin1_without_parent) \<and>
   lookup 1 (rows ex_admin1_with_parent) = Some \<lparr>location_id = 1, val = (\<lambda>_. 100)\<rparr> \<and>
   children_sum (rows ex_with_parent) 1 ex_key = 50 \<and>
   (\<exists>factor raked_values.
     sum_and_align_admin2_totals ex_with_parent ex_admin1_with_parent = Inr factor \<and>
     broadcast_factor_to_admin2 ex_with_parent factor = Inr raked_values \<and>
     raked_children_sum (rows raked_values) 1 ex_key = Some 100)"
proof -
  have p: "1 \<in> parent_id ` set (rows ex_with_parent)"
    by (simp add: ex_with_parent_def)
  have c: "lookup 1 (rows ex_admin1_with_parent) = Some \<lparr>location_id = 1, val = (\<lambda>_. 100)\<rparr>"
    by (simp add: ex_admin1_with_parent_def lookup_def)
  have s: "children_sum (rows ex_with_parent) 1 ex_key = 50"
    by (simp add: ex_with_parent_def children_sum_def)
  from conservation[OF ex_split2 ex_split1 p c, of ex_key] s
  show ?thesis using ex_split2 ex_split1 c by simp
qed

text \<open>
  Claim C2 (factor computation). For every entity \<open>i\<close> of the restricted coarse table,
  with row \<open>c\<close>, the factor step succeeds, the factor table has a row for \<open>i\<close>, and at
  every dimension combination its cell is the coarse value divided by the sum of the
  children's values, except that it is 1 where that sum is zero or the coarse value is
  zero.
\<close>

theorem factor_computation:
  assumes "split_ds_admin2 ds_admin2 ds_admin1 = (w, wo)"
    and "split_ds_admin1 ds_admin2 ds_admin1 = Inr (a1w, a1wo)"
    and "lookup i (rows a1w) = Some c"
  shows "\<exists>factor f.
           sum_and_align_admin2_totals w a1w = Inr factor \<and>
           lookup i (rows factor) = Some f \<and>
           (\<forall>k. val f k = Some (if children_sum (rows w) i k = 0 \<or> val c k = 0 then 1
                                else val c k / children_sum (rows w) i k))"
proof -
  have i: "i \<in> parent_id ` set (rows w)"
    by (rule coarse_with_parent_has_child[OF assms])
  then have "rows w \<noteq> []" by auto
  then obtain factor where sa: "sum_and_align_admin2_totals w a1w = Inr factor"
    using sum_and_align_total by blast
  obtain f where f: "lookup i (rows factor) = Some f"
    using lookup_factor[OF assms(3) sa] by blast
  have "val f k = Some (if children_sum (rows w) i k = 0 \<or> val c k = 0 then 1
                        else val c k / children_sum (rows w) i k)" for k
    using lookup_factor[OF assms(3) sa, of k] f i by auto
  then show ?thesis using sa f by blast
qed

theorem factor_computation_witness:
  "split_ds_admin2 ex_admin2 ex_admin1 = (ex_with_parent, ex_without_parent) \<and>
   split_ds_admin1 ex_admin2 ex_admin1 = Inr (ex_admin1_with_parent, ex_admin1_without_parent) \<and>
   lookup 1 (rows ex_admin1_with_parent) = Some \<lparr>location_id = 1, val = (\<lambda>_. 100)\<rparr> \<and>
   (\<exists>factor f.
      sum_and_align_admin2_totals ex_with_parent ex_admin1_with_parent = Inr factor \<and>
      lookup 1 (rows factor) = Some f \<and> val f ex_key = Some 2)"
proof -
  have c: "lookup 1 (rows ex_admin1_with_parent) = Some \<lparr>location_id = 1, val = (\<lambda>_. 100)\<rparr>"
    by (simp add: ex_admin1_with_parent_def lookup_def)
  have s: "children_sum (rows ex_with_parent) 1 ex_key = 50"
    by (simp add: ex_with_parent_def children_sum_def)
  from factor_computation[OF ex_split2 ex_split1 c] s
  show ?thesis using ex_split2 ex_split1 c by auto
qed

text \<open>
  Claim C3 (identity on degenerate groups). For a row \<open>r\<close> of the with-parent fine
  partition whose parent has the coarse row \<open>c\<close>: at a dimension combination where the
  sum of the parent's children is zero or the coarse value is zero, the factor of the
  parent is 1 and the raked value of \<open>r\<close> is its original value.
\<close>

theorem identity_on_degenerate_groups:
  assumes "split_ds_admin2 ds_admin2 ds_admin1 = (w, wo)"
    and "split_ds_admin1 ds_admin2 ds_admin1 = Inr (a1w, a1wo)"
    and "r \<in> set (rows w)"
    and "lookup (parent_id r) (rows a1w) = Some c"
    and "children_sum (rows w) (parent_id r) k = 0 \<or> val c k = 0"
  shows "\<exists>factor f raked_values.
           sum_and_align_admin2_totals w a1w = Inr factor \<and>
           lookup (parent_id r) (rows factor) = Some f \<and>
           val f k = Some 1 \<and>
           broadcast_factor_to_admin2 w factor = Inr raked_values \<and>
           length (rows raked_values) = length (rows w) \<and>
           (\<forall>n < length (rows raked_values). rows w ! n = r \<longrightarrow>
              location_id (rows raked_values ! n) = location_id r \<and>
              val (rows raked_values ! n) k = Some (val r k))"
proof -
  have ne: "rows w \<noteq> []" using assms(3) by auto
  obtain factor rv where sa: "sum_and_align_admin2_totals w a1w = Inr factor"
      and b: "broadcast_factor_to_admin2 w factor = Inr rv"
      and rv: "rows rv = raked_rows_of w a1w"
    using broadcast_form[OF assms(1,2) ne] by blast
  obtain f where f: "lookup (parent_id r) (rows factor) = Some f"
      "val f k = Some 1"
    using lookup_factor[OF assms(4) sa, of k] assms(3,5) by auto
  have "length (rows rv) = length (rows w) \<and>
        (\<forall>n < length (rows rv). rows w ! n = r \<longrightarrow>
              location_id (rows rv ! n) = location_id r \<and>
              val (rows rv ! n) k = Some (val r k))"
    using assms(4,5) rv by (auto simp: raked_rows_of_def)
  then show ?thesis
    using sa f b by blast
qed

theorem identity_on_degenerate_groups_witness:
  "split_ds_admin2 ex_admin2 ex_admin1 = (ex_with_parent, ex_without_parent) \<and>
   split_ds_admin1 ex_admin2 ex_admin1 = Inr (ex_admin1_with_parent, ex_admin1_without_parent) \<and>
   rows ex_with_parent ! 2 = \<lparr>location_id = 14, val = (\<lambda>_. 6), parent_id = 4\<rparr> \<and>
   lookup 4 (rows ex_admin1_with_parent) = Some \<lparr>location_id = 4, val = (\<lambda>_. 0)\<rparr> \<and>
   (\<exists>factor f raked_values.
      sum_and_align_admin2_totals ex_with_parent ex_admin1_with_parent = Inr factor \<and>
      lookup 4 (rows factor) = Some f \<and>
      val f ex_key = Some 1 \<and>
      broadcast_factor_to_admin2 ex_with_parent factor = Inr raked_values \<and>
      length (rows raked_values) = 3 \<and>
      location_id (rows raked_values ! 2) = 14 \<and> val (rows raked_values ! 2) ex_key = Some 6)"
proof -
  let ?r = "\<lparr>location_id = 14, val = (\<lambda>_. 6::real), parent_id = 4\<rparr> :: (dim_key, real) hrow"
  have n: "rows ex_with_parent ! 2 = ?r" "length (rows ex_with_parent) = 3"
    by (simp_all add: ex_with_parent_def)
  have r: "?r \<in> set (rows ex_with_parent)"
    by (simp add: ex_with_parent_def)
  have c: "lookup (parent_id ?r) (rows ex_admin1_with_parent) = Some \<lparr>location_id = 4, val = (\<lambda>_. 0)\<rparr>"
    by (simp add: ex_admin1_with_parent_def lookup_def)
  have z: "children_sum (rows ex_with_parent) (parent_id ?r) ex_key = 0 \<or> val \<lparr>location_id = 4, val = (\<lambda>_. 0::real)\<rparr> ex_key = 0"
    by simp
  from identity_on_degenerate_groups[OF ex_split2 ex_split1 r c z]
  show ?thesis using ex_split2 ex_split1 c n by auto
qed



section \<open>Properties of key reconciliation\<close>

lemma table_None_iff: "table rs i = None \<longleftrightarrow> i \<notin> set (map location_id rs)"
  by (simp add: table_def lookup_None_iff)

lemma impute_step_ids:
  "set (map location_id (impute_step (old_id, new_id) rs)) \<subseteq> (set (map location_id rs) - {old_id}) \<union> {new_id}"
  by (auto simp: impute_step_def Let_def split: option.splits if_splits)

lemma impute_step_absent:
  "old_id \<notin> set (map location_id rs) \<Longrightarrow> impute_step (old_id, new_id) rs = rs"
  by (simp add: impute_step_def)

lemma impute_step_removes:
  "old_id \<notin> set (map location_id (impute_step (old_id, new_id) rs))"
  by (auto simp: impute_step_def Let_def split: option.splits if_splits)

lemma impute_step_distinct:
  assumes "distinct (map location_id rs)"
  shows "distinct (map location_id (impute_step (old_id, new_id) rs))"
proof -
  have a: "map location_id (map (\<lambda>r. if location_id r = new_id then r\<lparr>val := f r\<rparr> else r) rs) = map location_id rs" for f :: "('a, real) row \<Rightarrow> 'a \<Rightarrow> real"
    by (induction rs) auto
  have b: "distinct (map location_id (map (\<lambda>r. if location_id r = old_id then r\<lparr>location_id := new_id\<rparr> else r) rs))"
    if "new_id \<notin> set (map location_id rs)"
    using assms that by (induction rs) (auto simp: image_iff)
  have c: "distinct (map location_id (filter P xs))" if "distinct (map location_id xs)" for P and xs :: "('a, real) row list"
    using that by (simp add: distinct_map_filter)
  show ?thesis
    unfolding impute_step_def Let_def
    using assms a b c
    by (auto split: option.splits simp del: set_map map_map)
qed

lemma lookup_filter_neq:
  "lookup i (filter (\<lambda>r. location_id r \<noteq> old_id) rs) = (if i = old_id then None else lookup i rs)"
  by (induction rs) (auto simp: lookup_def)

lemma lookup_relabel:
  assumes "new_id \<notin> set (map location_id rs)" and "old_id \<noteq> new_id"
  shows "lookup i (map (\<lambda>r. if location_id r = old_id then r\<lparr>location_id := new_id\<rparr> else r) rs) =
           (if i = new_id then map_option (\<lambda>r. r\<lparr>location_id := new_id\<rparr>) (lookup old_id rs)
            else if i = old_id then None else lookup i rs)"
  using assms by (induction rs) (auto simp: lookup_def)

lemma impute_step_refines:
  assumes "distinct (map location_id rs)" and "old_id \<noteq> new_id"
  shows "table (impute_step (old_id, new_id) rs) = spec_reconcile (old_id, new_id) (table rs)"
proof (cases "old_id \<in> set (map location_id rs)")
  case False
  then have "table rs old_id = None" by (simp add: table_None_iff)
  with False show ?thesis by (simp add: impute_step_absent spec_reconcile_def)
next
  case old: True
  then obtain old_row where o: "lookup old_id rs = Some old_row"
    using lookup_None_iff[of old_id rs] by (cases "lookup old_id rs") auto
  show ?thesis
  proof (cases "new_id \<in> set (map location_id rs)")
    case True
    then obtain new_row where n: "lookup new_id rs = Some new_row"
      using lookup_None_iff[of new_id rs] by (cases "lookup new_id rs") auto
    let ?rs1 = "map (\<lambda>r. if location_id r = new_id
                               then r\<lparr>val := (\<lambda>k. val r k + val old_row k)\<rparr> else r) rs"
    have ids: "map location_id ?rs1 = map location_id rs" by (induction rs) auto
    have step: "impute_step (old_id, new_id) rs = filter (\<lambda>r. location_id r \<noteq> old_id) ?rs1"
      using old True o ids unfolding impute_step_def Let_def
      by (simp del: set_map map_map)
    have l1: "lookup i ?rs1 = map_option (\<lambda>r. if location_id r = new_id
                               then r\<lparr>val := (\<lambda>k. val r k + val old_row k)\<rparr> else r) (lookup i rs)" for i
      by (rule lookup_map) simp
    have "table (impute_step (old_id, new_id) rs) i = spec_reconcile (old_id, new_id) (table rs) i" for i
      unfolding step table_def lookup_filter_neq l1 spec_reconcile_def
      using o n assms(2) lookup_SomeD[of i rs]
      by (cases "lookup i rs") (auto simp: lookup_SomeD)
    then show ?thesis by (rule ext)
  next
    case False
    let ?rs1 = "map (\<lambda>r. if location_id r = old_id then r\<lparr>location_id := new_id\<rparr> else r) rs"
    have gone: "old_id \<notin> set (map location_id ?rs1)"
      using assms(2) by (induction rs) auto
    have step: "impute_step (old_id, new_id) rs = ?rs1"
      using old False gone unfolding impute_step_def Let_def
      by (simp del: set_map map_map)
    have n: "lookup new_id rs = None" using False by (simp add: lookup_None_iff)
    have "table (impute_step (old_id, new_id) rs) i = spec_reconcile (old_id, new_id) (table rs) i" for i
      unfolding step table_def lookup_relabel[OF False assms(2)] spec_reconcile_def
      using o n assms(2) by auto
    then show ?thesis by (rule ext)
  qed
qed

lemma fold_impute_step_refines:
  assumes "distinct (map location_id rs)" and "\<forall>item \<in> set items. fst item \<noteq> snd item"
  shows "table (fold impute_step items rs) = fold spec_reconcile items (table rs) \<and>
         distinct (map location_id (fold impute_step items rs))"
  using assms
proof (induction items arbitrary: rs)
  case Nil
  then show ?case by simp
next
  case (Cons item items)
  obtain old_id new_id where item: "item = (old_id, new_id)" by (cases item)
  have ne: "old_id \<noteq> new_id" using Cons.prems(2) item by simp
  have d: "distinct (map location_id (impute_step item rs))"
    unfolding item by (rule impute_step_distinct[OF Cons.prems(1)])
  have "table (impute_step item rs) = spec_reconcile item (table rs)"
    unfolding item by (rule impute_step_refines[OF Cons.prems(1) ne])
  with Cons.IH[OF d] Cons.prems(2) show ?case by simp
qed

lemma spec_reconcile_commute:
  assumes "o1 \<noteq> o2" "o1 \<noteq> n" "o2 \<noteq> n"
  shows "spec_reconcile (o1, n) (spec_reconcile (o2, n) m) = spec_reconcile (o2, n) (spec_reconcile (o1, n) m)"
  using assms
  by (auto simp: spec_reconcile_def fun_eq_iff ac_simps split: option.splits)

lemma spec_reconcile_closed_form:
  "fold spec_reconcile IMPUTE_MAP m =
     (\<lambda>i. if i \<in> {60908, 95069, 94364} then None
          else if i = 44858 then
            (if m 44858 = None \<and> m 60908 = None \<and> m 95069 = None \<and> m 94364 = None then None
             else Some (\<lambda>k. value_or_zero m 44858 k + value_or_zero m 60908 k +
                             value_or_zero m 95069 k + value_or_zero m 94364 k))
          else m i)"
  by (auto simp: IMPUTE_MAP_def spec_reconcile_def value_or_zero_def fun_eq_iff split: option.splits)

lemma fold_spec_reconcile_perm:
  fixes m :: "int \<Rightarrow> ('k \<Rightarrow> real) option"
  assumes "mset items = mset IMPUTE_MAP"
  shows "fold spec_reconcile items m = fold spec_reconcile IMPUTE_MAP m"
proof -
  have "(fold spec_reconcile items :: (int \<Rightarrow> ('k \<Rightarrow> real) option) \<Rightarrow> _) = fold spec_reconcile IMPUTE_MAP"
  proof (rule fold_multiset_equiv[OF _ assms])
    fix x y assume "x \<in> set items" "y \<in> set items"
    then have "x \<in> set IMPUTE_MAP" "y \<in> set IMPUTE_MAP"
      using assms by (metis set_mset_mset)+
    then show "spec_reconcile x \<circ> spec_reconcile y = spec_reconcile y \<circ> spec_reconcile x"
      by (auto simp: IMPUTE_MAP_def spec_reconcile_commute fun_eq_iff)
  qed
  then show ?thesis by simp
qed

lemma impute_step_keeps_absent:
  assumes "i \<notin> set (map location_id rs)" and "i \<noteq> snd item"
  shows "i \<notin> set (map location_id (impute_step item rs))"
  using impute_step_ids[of "fst item" "snd item" rs] assms by auto

lemma no_old_id_remains:
  "\<forall>item \<in> set IMPUTE_MAP. fst item \<notin> set (map location_id (fold impute_step IMPUTE_MAP rs))"
proof -
  let ?r1 = "impute_step (60908, 44858) rs"
  let ?r2 = "impute_step (95069, 44858) ?r1"
  let ?r3 = "impute_step (94364, 44858) ?r2"
  have a1: "60908 \<notin> set (map location_id ?r1)" by (rule impute_step_removes)
  have a2: "60908 \<notin> set (map location_id ?r2)" by (rule impute_step_keeps_absent[OF a1]) simp
  have a3: "60908 \<notin> set (map location_id ?r3)" by (rule impute_step_keeps_absent[OF a2]) simp
  have b2: "95069 \<notin> set (map location_id ?r2)" by (rule impute_step_removes)
  have b3: "95069 \<notin> set (map location_id ?r3)" by (rule impute_step_keeps_absent[OF b2]) simp
  have c3: "94364 \<notin> set (map location_id ?r3)" by (rule impute_step_removes)
  show ?thesis using a3 b3 c3 by (simp add: IMPUTE_MAP_def)
qed

lemma fold_impute_step_fixed:
  assumes "\<forall>item \<in> set items. fst item \<notin> set (map location_id rs)"
  shows "fold impute_step items rs = rs"
  using assms
proof (induction items)
  case Nil
  then show ?case by simp
next
  case (Cons item items)
  then have "impute_step item rs = rs"
    using impute_step_absent[of "fst item" rs "snd item"] by simp
  with Cons show ?case by simp
qed

text \<open>
  Claim C6 (reconciliation idempotence). For every input table, applying
  \<open>impute_location_ids\<close> twice gives the same table as applying it once.
\<close>

theorem reconciliation_idempotence:
  "impute_location_ids (impute_location_ids ds) = impute_location_ids ds"
  using fold_impute_step_fixed[OF no_old_id_remains, of "rows ds"]
  by (simp add: impute_location_ids_def impute_with_def)

text \<open>
  Claim C5 (key reconciliation). On a table with a unique \<open>location_id\<close> index, the
  table keyed by entity id that \<open>impute_location_ids\<close> returns is the one obtained by
  applying the contract of the specification to each item of the mapping in turn (add the
  values of a present \<open>old_id\<close> into \<open>new_id\<close> when that exists, relabel it
  otherwise, remove \<open>old_id\<close>). Afterwards no \<open>old_id\<close> of the mapping is in the
  table; the entity 44858 holds the sum of its own values, if it was present, and of the
  values of every \<open>old_id\<close> that was present; every other entity is unchanged; and
  processing the items of the mapping in any other order gives the same keyed table.
\<close>

theorem key_reconciliation:
  assumes "distinct (map location_id (rows ds))"
  shows "table (rows (impute_location_ids ds)) = fold spec_reconcile IMPUTE_MAP (table (rows ds)) \<and>
         (\<forall>item \<in> set IMPUTE_MAP. fst item \<notin> set (map location_id (rows (impute_location_ids ds)))) \<and>
         table (rows (impute_location_ids ds)) 44858 =
           (if table (rows ds) 44858 = None \<and> table (rows ds) 60908 = None \<and>
               table (rows ds) 95069 = None \<and> table (rows ds) 94364 = None then None
            else Some (\<lambda>k. value_or_zero (table (rows ds)) 44858 k + value_or_zero (table (rows ds)) 60908 k +
                            value_or_zero (table (rows ds)) 95069 k + value_or_zero (table (rows ds)) 94364 k)) \<and>
         (\<forall>i. i \<notin> {44858, 60908, 95069, 94364} \<longrightarrow>
              table (rows (impute_location_ids ds)) i = table (rows ds) i) \<and>
         (\<forall>items. mset items = mset IMPUTE_MAP \<longrightarrow>
              table (rows (impute_with items ds)) = table (rows (impute_location_ids ds)))"
proof -
  have ne: "\<forall>item \<in> set IMPUTE_MAP. fst item \<noteq> snd item"
    by (simp add: IMPUTE_MAP_def)
  have t: "table (rows (impute_location_ids ds)) = fold spec_reconcile IMPUTE_MAP (table (rows ds))"
    using fold_impute_step_refines[OF assms ne]
    by (simp add: impute_location_ids_def impute_with_def)
  have perm: "table (rows (impute_with items ds)) = table (rows (impute_location_ids ds))"
    if "mset items = mset IMPUTE_MAP" for items
  proof -
    have "set items = set IMPUTE_MAP" using that by (metis set_mset_mset)
    then have "\<forall>item \<in> set items. fst item \<noteq> snd item" using ne by simp
    then have "table (rows (impute_with items ds)) = fold spec_reconcile items (table (rows ds))"
      using fold_impute_step_refines[OF assms] by (simp add: impute_with_def)
    then show ?thesis using t fold_spec_reconcile_perm[OF that] by simp
  qed
  have olds: "\<forall>item \<in> set IMPUTE_MAP. fst item \<notin> set (map location_id (rows (impute_location_ids ds)))"
    using no_old_id_remains[of "rows ds"] by (simp add: impute_location_ids_def impute_with_def)
  show ?thesis
    using t olds perm by (simp add: spec_reconcile_closed_form)
qed

theorem key_reconciliation_witness:
  "distinct (map location_id (rows ex_impute)) \<and>
   map location_id (rows (impute_location_ids ex_impute)) = [7, 44858] \<and>
   map_option (\<lambda>v. v ex_key) (table (rows (impute_location_ids ex_impute)) 44858) = Some 12 \<and>
   table (rows (impute_with [(95069, 44858), (94364, 44858), (60908, 44858)] ex_impute)) =
     table (rows (impute_location_ids ex_impute))"
proof -
  have d: "distinct (map location_id (rows ex_impute))"
    by (simp add: ex_impute_def)
  have ids: "map location_id (rows (impute_location_ids ex_impute)) = [7, 44858]"
    by (simp add: ex_impute_def impute_location_ids_def impute_with_def IMPUTE_MAP_def
        impute_step_def lookup_def)
  have m: "mset [(95069, 44858), (94364, 44858), (60908::int, 44858::int)] = mset IMPUTE_MAP"
    by (simp add: IMPUTE_MAP_def)
  have v: "table (rows ex_impute) 44858 = None" "table (rows ex_impute) 94364 = None"
      "table (rows ex_impute) 95069 = Some (\<lambda>_. 5)" "table (rows ex_impute) 60908 = Some (\<lambda>_. 7)"
    by (simp_all add: ex_impute_def table_def lookup_def)
  note k = key_reconciliation[OF d]
  have s: "table (rows (impute_location_ids ex_impute)) 44858 = Some (\<lambda>k. 12)"
    using k[THEN conjunct2, THEN conjunct2, THEN conjunct1] v by (simp add: value_or_zero_def)
  have p: "table (rows (impute_with [(95069, 44858), (94364, 44858), (60908, 44858)] ex_impute)) =
     table (rows (impute_location_ids ex_impute))"
    using k[THEN conjunct2, THEN conjunct2, THEN conjunct2, THEN conjunct2] m by blast
  show ?thesis using d ids s p by simp
qed

section \<open>Properties of loading, the main function and the launcher\<close>

subsection \<open>Auxiliary facts\<close>

lemma and_then_Inl: "and_then (Inl e, events) f = (Inl e, events)"
  by (simp add: and_then_def)

lemma and_then_Inr:
  "and_then (Inr a, events) f = (case f a of (r, later) \<Rightarrow> (r, events @ later))"
  by (simp add: and_then_def)

lemma and_then_cong:
  assumes "m = n" and "\<And>a. f a = g a"
  shows "and_then m f = and_then n g"
  using assms by (auto simp: and_then_def split: prod.splits sum.splits)

lemma str_int_0: "str_int 0 = ''0''"
  by (simp add: str_int_def str_nat.simps)

lemma zero_in_DRAWS: "0 \<in> set DRAWS"
  by (auto simp: DRAWS_def intro!: image_eqI[where x=0])

lemma lookup_agree:
  fixes rs ss :: "('k, 'c, 'm) row_scheme list"
  assumes "list_all2 (\<lambda>r s. location_id s = location_id r \<and> val s k = val r k) rs ss"
  shows "val (the (lookup i ss)) k = val (the (lookup i rs)) k"
  using assms by (induction rs ss rule: list_all2_induct) (auto simp: lookup_def)

lemma same_on_draw_ids:
  assumes "same_on_draw d f g"
  shows "map location_id (rows g) = map location_id (rows f)"
proof -
  have "list_all2 (\<lambda>r s. location_id s = location_id r) (rows f) (rows g)"
    using assms unfolding same_on_draw_def by (auto elim: list_all2_mono)
  then show ?thesis
    by (induction rule: list_all2_induct) auto
qed

lemma same_on_draw_val:
  assumes "same_on_draw d f g" and "key_draw k = d"
  shows "val (the (lookup i (rows g))) k = val (the (lookup i (rows f))) k"
proof -
  have "list_all2 (\<lambda>r s. location_id s = location_id r \<and> val s k = val r k) (rows f) (rows g)"
    using assms unfolding same_on_draw_def by (auto elim: list_all2_mono)
  then show ?thesis by (rule lookup_agree)
qed

lemma split_ds_admin1_coords:
  assumes "split_ds_admin1 a2 a1 = Inr (a1w, a1wo)"
  shows "age_group_id a1w = age_group_id a1" "sex_id a1w = sex_id a1" "draw_coord a1w = draw_coord a1"
    "scenario_coord a1w = scenario_coord a1" "dims a1w = dims a1"
  using assms unfolding split_ds_admin1_total by auto

lemma lookup_raked_rows_of:
  "lookup i (raked_rows_of w a1w) =
     map_option (\<lambda>r. \<lparr>location_id = location_id r,
               val = (\<lambda>k. Some (val r k *
                        (if children_sum (rows w) (parent_id r) k = 0 \<or>
                            val (the (lookup (parent_id r) (rows a1w))) k = 0 then 1
                         else val (the (lookup (parent_id r) (rows a1w))) k /
                              children_sum (rows w) (parent_id r) k))),
               parent_id = parent_id r\<rparr>) (lookup i (rows w))"
  unfolding raked_rows_of_def by (rule lookup_map) simp

lemma mask_to_axes_cong:
  fixes v v' :: "'o dim_key_scheme \<Rightarrow> real option"
  assumes "\<And>k :: 'o dim_key_scheme. on_axes ds' k = on_axes ds k"
    and "\<And>k. on_axes ds k \<Longrightarrow> v' k = v k"
  shows "mask_to_axes ds' v' = mask_to_axes ds v"
  using assms by (auto simp: mask_to_axes_def fun_eq_iff)

lemma raking_steps_cong:
  fixes a1 a1' :: "('o dim_key_scheme, real) row dataset"
  assumes same: "same_on_draw d a1 a1'" and dr: "set (draw_coord a1) \<subseteq> {d}"
  shows "raking_steps a2 a1' = raking_steps a2 a1"
proof -
  have ids: "map location_id (rows a1') = map location_id (rows a1)"
    by (rule same_on_draw_ids[OF same])
  have co: "age_group_id a1' = age_group_id a1" "sex_id a1' = sex_id a1" "draw_coord a1' = draw_coord a1"
      "scenario_coord a1' = scenario_coord a1" "dims a1' = dims a1"
    using same unfolding same_on_draw_def by auto
  obtain w wo where s2: "split_ds_admin2 a2 a1 = (w, wo)"
    by (cases "split_ds_admin2 a2 a1")
  have s2': "split_ds_admin2 a2 a1' = (w, wo)"
    using s2 unfolding split_ds_admin2_def ids by simp
  obtain a1w a1wo where s1: "split_ds_admin1 a2 a1 = Inr (a1w, a1wo)"
    using split_ds_admin1_total[of a2 a1] by blast
  obtain a1w' a1wo' where s1': "split_ds_admin1 a2 a1' = Inr (a1w', a1wo')"
    using split_ds_admin1_total[of a2 a1'] by blast
  show ?thesis
  proof (cases "rows w = []")
    case True
    then show ?thesis
      by (simp add: raking_steps_def s2 s2' s1 s1' sum_and_align_empty)
  next
    case ne: False
  obtain factor rv where sa: "sum_and_align_admin2_totals w a1w = Inr factor"
      and b: "broadcast_factor_to_admin2 w factor = Inr rv"
      and rv: "rows rv = raked_rows_of w a1w"
      "age_group_id rv = common_labels (age_group_id w) (common_labels (age_group_id a1w) (age_group_id w))"
      "sex_id rv = common_labels (sex_id w) (common_labels (sex_id a1w) (sex_id w))"
      "draw_coord rv = common_labels (draw_coord w) (common_labels (draw_coord a1w) (draw_coord w))"
      "scenario_coord rv = common_labels (scenario_coord w) (common_labels (scenario_coord a1w) (scenario_coord w))"
      "dims rv = dims w \<union> dims a1w"
    using broadcast_form[OF s2 s1 ne] by blast
  obtain factor' rv' where sa': "sum_and_align_admin2_totals w a1w' = Inr factor'"
      and b': "broadcast_factor_to_admin2 w factor' = Inr rv'"
      and rv': "rows rv' = raked_rows_of w a1w'"
      "age_group_id rv' = common_labels (age_group_id w) (common_labels (age_group_id a1w') (age_group_id w))"
      "sex_id rv' = common_labels (sex_id w) (common_labels (sex_id a1w') (sex_id w))"
      "draw_coord rv' = common_labels (draw_coord w) (common_labels (draw_coord a1w') (draw_coord w))"
      "scenario_coord rv' = common_labels (scenario_coord w) (common_labels (scenario_coord a1w') (scenario_coord w))"
      "dims rv' = dims w \<union> dims a1w'"
    using broadcast_form[OF s2' s1' ne] by blast
  have axes: "on_axes rv' k = on_axes rv k" for k :: "'o dim_key_scheme"
    unfolding on_axes_def rv rv' split_ds_admin1_coords[OF s1] split_ds_admin1_coords[OF s1'] co
    by simp
  have draw: "key_draw k = d" if "on_axes rv k" for k :: "'o dim_key_scheme"
    using that dr unfolding on_axes_def rv split_ds_admin1_coords[OF s1]
    by (auto simp: common_labels_def)
  have cell: "val (the (lookup p (rows a1w'))) k = val (the (lookup p (rows a1w))) k"
    if "key_draw k = d" for p and k :: "'o dim_key_scheme"
    unfolding lookup_admin1_with[OF s1] lookup_admin1_with[OF s1']
    using same_on_draw_val[OF same that] by simp
  have row: "(case lookup i (rows rv') of None \<Rightarrow> (\<lambda>k. None)
              | Some x \<Rightarrow> mask_to_axes rv' (val x)) =
             (case lookup i (rows rv) of None \<Rightarrow> (\<lambda>k. None)
              | Some x \<Rightarrow> mask_to_axes rv (val x))" for i
  proof (cases "lookup i (rows w)")
    case None
    then show ?thesis unfolding rv(1) rv'(1) lookup_raked_rows_of by simp
  next
    case (Some r)
    have "mask_to_axes rv'
            (\<lambda>k. Some (val r k *
                        (if children_sum (rows w) (parent_id r) k = 0 \<or>
                            val (the (lookup (parent_id r) (rows a1w'))) k = 0 then 1
                         else val (the (lookup (parent_id r) (rows a1w'))) k /
                              children_sum (rows w) (parent_id r) k))) =
          mask_to_axes rv
            (\<lambda>k. Some (val r k *
                        (if children_sum (rows w) (parent_id r) k = 0 \<or>
                            val (the (lookup (parent_id r) (rows a1w))) k = 0 then 1
                         else val (the (lookup (parent_id r) (rows a1w))) k /
                              children_sum (rows w) (parent_id r) k)))"
    proof (rule mask_to_axes_cong)
      show "on_axes rv' k = on_axes rv k" for k :: "'o dim_key_scheme" by (rule axes)
    next
      fix k :: "'o dim_key_scheme"
      assume "on_axes rv k"
      then have "val (the (lookup (parent_id r) (rows a1w'))) k = val (the (lookup (parent_id r) (rows a1w))) k"
        using cell draw by blast
      then show "Some (val r k *
                        (if children_sum (rows w) (parent_id r) k = 0 \<or>
                            val (the (lookup (parent_id r) (rows a1w'))) k = 0 then 1
                         else val (the (lookup (parent_id r) (rows a1w'))) k /
                              children_sum (rows w) (parent_id r) k)) =
                 Some (val r k *
                        (if children_sum (rows w) (parent_id r) k = 0 \<or>
                            val (the (lookup (parent_id r) (rows a1w))) k = 0 then 1
                         else val (the (lookup (parent_id r) (rows a1w))) k /
                              children_sum (rows w) (parent_id r) k))"
        by (simp only:)
    qed
    then show ?thesis
      unfolding rv(1) rv'(1) lookup_raked_rows_of Some by simp
  qed
  have "dims rv' = dims rv"
    unfolding rv rv' split_ds_admin1_coords[OF s1] split_ds_admin1_coords[OF s1'] co by simp
  then have "build_raked_dataset w rv' = build_raked_dataset w rv"
    unfolding build_raked_dataset_def by (simp only: row)
  then show ?thesis
    by (simp add: raking_steps_def s2 s2' s1 s1' sa sa' b b' Let_def)
  qed
qed

lemma path_exists_forecast_upd:
  assumes "forecast_files w p = Some f"
  shows "path_exists (w\<lparr>forecast_files := (forecast_files w)(p \<mapsto> g)\<rparr>) q = path_exists w q"
  using assms by (auto simp: path_exists_def)

lemma open_predicted_forecast_upd:
  assumes "forecast_files w p = Some f"
  shows "open_predicted (w\<lparr>forecast_files := (forecast_files w)(p \<mapsto> g)\<rparr>) folder scenario draw =
         open_predicted w folder scenario draw"
  by (simp add: open_predicted_def Let_def path_exists_forecast_upd[OF assms])

lemma get_predicted_ds_forecast_upd:
  assumes "forecast_files w p = Some f"
  shows "get_predicted_ds (w\<lparr>forecast_files := (forecast_files w)(p \<mapsto> g)\<rparr>) cause scenario measure' draw =
         get_predicted_ds w cause scenario measure' draw"
  by (simp add: get_predicted_ds_def open_predicted_forecast_upd[OF assms] split: option.splits)

lemma load_in_hierarchy_dataset_forecast_upd:
  "load_in_hierarchy_dataset (w\<lparr>forecast_files := m\<rparr>) = load_in_hierarchy_dataset w"
  by (simp add: load_in_hierarchy_dataset_def)

lemma same_on_draw_subset:
  assumes "same_on_draw d a b"
  shows "same_on_draw d (subset_admin1_to_admin2_dims a x) (subset_admin1_to_admin2_dims b x)"
  using assms by (simp add: same_on_draw_def subset_admin1_to_admin2_dims_def)

lemma same_on_draw_where:
  assumes "same_on_draw d a b"
  shows "same_on_draw d (a\<lparr>draw_coord := filter P (draw_coord a)\<rparr>) (b\<lparr>draw_coord := filter P (draw_coord b)\<rparr>)"
  using assms by (simp add: same_on_draw_def)

lemma raking_after_subset_cong:
  fixes f g :: "('o dim_key_scheme, real) row dataset"
  assumes "same_on_draw d f g"
  shows "raking_steps a2 (subset_admin1_to_admin2_dims (g\<lparr>draw_coord := filter (\<lambda>x. x = d) (draw_coord g)\<rparr>) x) =
         raking_steps a2 (subset_admin1_to_admin2_dims (f\<lparr>draw_coord := filter (\<lambda>x. x = d) (draw_coord f)\<rparr>) x)"
proof (rule raking_steps_cong)
  show "same_on_draw d
     (subset_admin1_to_admin2_dims (f\<lparr>draw_coord := filter (\<lambda>x. x = d) (draw_coord f)\<rparr>) x)
     (subset_admin1_to_admin2_dims (g\<lparr>draw_coord := filter (\<lambda>x. x = d) (draw_coord g)\<rparr>) x)"
    by (intro same_on_draw_subset same_on_draw_where assms)
  show "set (draw_coord (subset_admin1_to_admin2_dims (f\<lparr>draw_coord := filter (\<lambda>x. x = d) (draw_coord f)\<rparr>) x)) \<subseteq> {d}"
    by (auto simp: subset_admin1_to_admin2_dims_def)
qed

lemma get_forcasted_ds_ok:
  assumes "scenario_and_measure_map (scenario, measure') = Some dataset_name"
    and "CAUSE_MAP cause = Some file_name"
    and "forecast_files w (forecast_path measure' dataset_name file_name) = Some f"
  shows "get_forcasted_ds w cause scenario measure' draw =
           (Inr (f\<lparr>draw_coord := filter (\<lambda>d. d = draw) (draw_coord f)\<rparr>),
            [PathExists (forecast_path measure' dataset_name file_name),
             OpenDataset (forecast_path measure' dataset_name file_name)])"
  using assms by (simp add: get_forcasted_ds_def path_exists_def Let_def)

lemma lookup_rel:
  fixes rs ss :: "('k, 'c, 'm) row_scheme list"
  assumes "list_all2 (\<lambda>r s. location_id s = location_id r \<and> val s k = val r k) rs ss"
  shows "rel_option (\<lambda>r s. location_id s = location_id r \<and> val s k = val r k)
           (lookup i rs) (lookup i ss)"
  using assms by (induction rs ss rule: list_all2_induct) (auto simp: lookup_def)

lemma factor_agree:
  fixes a b :: "('o dim_key_scheme, real) row dataset"
  assumes same: "same_on_draw d a b" and k: "key_draw k = d"
  shows "map_sum id (\<lambda>factor. map_option (\<lambda>r. val r k) (lookup i (rows factor)))
           (sum_and_align_admin2_totals a2 b) =
         map_sum id (\<lambda>factor. map_option (\<lambda>r. val r k) (lookup i (rows factor)))
           (sum_and_align_admin2_totals a2 a)"
proof (cases "rows a2 = []")
  case True
  then show ?thesis by (simp add: sum_and_align_empty)
next
  case False
  then obtain tot where g: "groupby_parent_sum (rows a2) = Inr tot"
    by (auto simp: groupby_parent_sum_def)
  have ids: "map location_id (rows b) = map location_id (rows a)"
    by (rule same_on_draw_ids[OF same])
  have "list_all2 (\<lambda>r s. location_id s = location_id r \<and> val s k = val r k) (rows a) (rows b)"
    using same k unfolding same_on_draw_def by (auto elim: list_all2_mono)
  then have rel: "rel_option (\<lambda>r s. location_id s = location_id r \<and> val s k = val r k)
           (lookup i (rows a)) (lookup i (rows b))"
    by (rule lookup_rel)
  show ?thesis
    unfolding sum_and_align_admin2_totals_def g Let_def ids
    using rel by (cases "lookup i (rows a)"; cases "lookup i (rows b)") (simp_all add: lookup_map)
qed

lemma and_then_pure: "and_then (Inr a, []) f = f a"
  by (simp add: and_then_def split: prod.splits)

lemma ex_save:
  "save_raked_dataset_optimized ''malaria'' 0 ''death'' 0 =
     (Inr (),
      [Mkdir output_dir, Chmod output_dir,
       Mkdir (output_dir @ ''/as_cause_malaria_measure_mortality_metric_count_ssp_scenario_ssp245_dah_scenario_Baseline_raked''),
       ToNetcdf (output_dir @ ''/as_cause_malaria_measure_mortality_metric_count_ssp_scenario_ssp245_dah_scenario_Baseline_raked/draw_0.nc''),
       Chmod (output_dir @ ''/as_cause_malaria_measure_mortality_metric_count_ssp_scenario_ssp245_dah_scenario_Baseline_raked/draw_0.nc''),
       Print (''[ok] Saved: '' @ output_dir @ ''/as_cause_malaria_measure_mortality_metric_count_ssp_scenario_ssp245_dah_scenario_Baseline_raked/draw_0.nc'')])"
  by (simp add: save_raked_dataset_optimized_def SCENARIO_MAP_def SAVE_MEASURE_MAP_def str_int_0 Let_def)

lemma ex_get_forcasted:
  "get_forcasted_ds ex_run_world ''malaria'' 0 ''death'' 0 =
     (Inr ex_admin1, [PathExists ex_forecast_file, OpenDataset ex_forecast_file])"
  by (simp add: get_forcasted_ds_def scenario_and_measure_map_def CAUSE_MAP_def Let_def
      path_exists_def ex_run_world_def ex_forecast_file_def ex_forecast_def ex_admin1_def)

lemma ex_get_predicted:
  "get_predicted_ds ex_run_world ''malaria'' 0 ''death'' 0 =
     (Inr ex_fine,
      [PathExists ex_predicted_folder, OpenDataset (ex_predicted_folder @ ''/draw_0.nc'')])"
  by (simp add: get_predicted_ds_def SCENARIO_MAP_def MEASURE_MAP_def open_predicted_def Let_def
      path_exists_def ex_run_world_def ex_predicted_folder_def str_int_0 ex_predicted_def
      ex_fine_def ex_dims_def)

lemma ex_raking_steps:
  "\<exists>out. raking_steps ex_admin2 ex_admin1 = Inr out \<and>
         map (\<lambda>r. (location_id r, val r ex_key)) (rows out) =
           [(11, Some 60), (12, Some 40), (14, Some 6), (13, Some 5)] \<and>
         map (\<lambda>r. (location_id r, val r (ex_key\<lparr>key_draw := 1\<rparr>))) (rows out) =
           [(11, None), (12, None), (14, None), (13, Some 5)] \<and>
         draw_coord out = [0]"
  by (simp add: raking_steps_def ex_split2 ex_split1 Let_def
      broadcast_factor_to_admin2_def sum_and_align_admin2_totals_def
      groupby_parent_sum_def reindex_def lookup_def xr_where_def eq0_def fdiv_def fmul_def
      build_raked_dataset_def mask_to_axes_def on_axes_def common_labels_def
      merge_raked_and_unraked_admin2_dask_def drop_data_variables_def
      ex_with_parent_def ex_without_parent_def ex_admin1_with_parent_def ex_key_def)

lemma ex_pipeline:
  "impute_location_ids ex_fine = ex_fine \<and>
   transpose_ds ex_fine (dims ex_admin1) = Inr ex_fine \<and>
   load_in_hierarchy_dataset ex_run_world = (Inr (tl ex_hierarchy), [OpenDataset hierarchy_path]) \<and>
   subset_admin1_to_admin2_dims ex_admin1 ex_fine = ex_admin1 \<and>
   subset_ds_to_admin2_locations (tl ex_hierarchy) ex_fine =
     Inr ex_fine \<and>
   attach_hierarchy ex_fine (tl ex_hierarchy) = Inr ex_admin2"
  by (simp add: impute_location_ids_def impute_with_def IMPUTE_MAP_def impute_step_def
      load_in_hierarchy_dataset_def ex_run_world_def ex_hierarchy_def
      subset_admin1_to_admin2_dims_def ex_admin1_def ex_fine_def transpose_ds_def
      subset_ds_to_admin2_locations_def set_inter_list_def lookup_def
      attach_hierarchy_def ex_admin2_def)

lemma ex_main_steps:
  fixes out :: "(dim_key, real option) row dataset"
  assumes "raking_steps ex_admin2 ex_admin1 = Inr out"
  shows "main_raking_function ex_run_world ''malaria'' 0 ''death'' 0 =
           (Inr out,
            [PathExists ex_forecast_file, OpenDataset ex_forecast_file,
             PathExists ex_predicted_folder, OpenDataset (ex_predicted_folder @ ''/draw_0.nc''),
             OpenDataset hierarchy_path] @ snd (save_raked_dataset_optimized ''malaria'' 0 ''death'' 0))"
  unfolding main_raking_function_def ex_get_forcasted ex_get_predicted and_then_Inr Let_def
  apply (simp only: ex_pipeline and_then_Inr and_then_pure assms ex_save)
  apply simp
  done

lemma ex_orphans_get_forcasted:
  "get_forcasted_ds ex_orphans_world ''malaria'' 0 ''death'' 0 =
     (Inr ex_admin1, [PathExists ex_forecast_file, OpenDataset ex_forecast_file])"
  by (simp add: get_forcasted_ds_def scenario_and_measure_map_def CAUSE_MAP_def Let_def
      path_exists_def ex_orphans_world_def ex_forecast_file_def ex_forecast_def ex_admin1_def)

lemma ex_orphans_get_predicted:
  "get_predicted_ds ex_orphans_world ''malaria'' 0 ''death'' 0 =
     (Inr ex_orphans_fine,
      [PathExists ex_predicted_folder, OpenDataset (ex_predicted_folder @ ''/draw_0.nc'')])"
  by (simp add: get_predicted_ds_def SCENARIO_MAP_def MEASURE_MAP_def open_predicted_def Let_def
      path_exists_def ex_orphans_world_def ex_predicted_folder_def str_int_0 ex_orphans_predicted_def
      ex_orphans_fine_def ex_dims_def)

lemma ex_orphans_pipeline:
  "impute_location_ids ex_orphans_fine = ex_orphans_fine \<and>
   transpose_ds ex_orphans_fine (dims ex_admin1) = Inr ex_orphans_fine \<and>
   load_in_hierarchy_dataset ex_orphans_world = (Inr (tl ex_hierarchy), [OpenDataset hierarchy_path]) \<and>
   subset_admin1_to_admin2_dims ex_admin1 ex_orphans_fine = ex_admin1 \<and>
   subset_ds_to_admin2_locations (tl ex_hierarchy) ex_orphans_fine =
     Inr ex_orphans_fine \<and>
   attach_hierarchy ex_orphans_fine (tl ex_hierarchy) = Inr ex_orphans"
  by (simp add: impute_location_ids_def impute_with_def IMPUTE_MAP_def impute_step_def
      load_in_hierarchy_dataset_def ex_orphans_world_def ex_hierarchy_def
      subset_admin1_to_admin2_dims_def ex_admin1_def ex_orphans_fine_def transpose_ds_def
      subset_ds_to_admin2_locations_def set_inter_list_def lookup_def
      attach_hierarchy_def ex_orphans_def)

lemma ex_orphans_raking:
  "raking_steps ex_orphans ex_admin1 = Inl (ValueError ''parent_id must not be empty'')"
  by (rule raking_steps_without_parents) (simp add: ex_orphans_def ex_admin1_def)

lemma ex_same_on_draw: "same_on_draw 0 ex_forecast ex_forecast_other"
  by (simp add: same_on_draw_def ex_forecast_other_def ex_forecast_def ex_admin1_def)

subsection \<open>The claims\<close>

text \<open>
  Claim C8 (configuration errors fail fast). A (scenario, measure) combination that is
  not in the lookup table makes \<open>get_forcasted_ds\<close>, and with it the whole run, raise
  \<open>ValueError\<close> with no event at all; with a combination of the table, a cause other
  than malaria and dengue makes them raise \<open>KeyError\<close> with no event at all. Called on
  its own with a scenario, a measure or a cause that it does not know,
  \<open>get_predicted_ds\<close> raises an error before it touches the file system. No such
  request returns a dataset.
\<close>

theorem configuration_errors_fail_fast:
  "(scenario_and_measure_map (scenario, measure') = None \<longrightarrow>
      get_forcasted_ds w cause scenario measure' draw =
        (Inl (ValueError ''Invalid scenario ID and measure combination.''), []) \<and>
      main_raking_function w cause scenario measure' draw =
        (Inl (ValueError ''Invalid scenario ID and measure combination.''), [])) \<and>
   (scenario_and_measure_map (scenario, measure') \<noteq> None \<and> cause \<noteq> ''malaria'' \<and> cause \<noteq> ''dengue'' \<longrightarrow>
      get_forcasted_ds w cause scenario measure' draw = (Inl (KeyError cause), []) \<and>
      main_raking_function w cause scenario measure' draw = (Inl (KeyError cause), [])) \<and>
   (SCENARIO_MAP scenario = None \<or> MEASURE_MAP measure' = None \<or>
    (cause \<noteq> ''malaria'' \<and> cause \<noteq> ''dengue'') \<longrightarrow>
      (\<exists>e events. get_predicted_ds w cause scenario measure' draw = (Inl e, events) \<and>
                  filter file_access events = []))"
proof (intro conjI impI)
  assume a: "scenario_and_measure_map (scenario, measure') = None"
  then show g: "get_forcasted_ds w cause scenario measure' draw =
        (Inl (ValueError ''Invalid scenario ID and measure combination.''), [])"
    by (simp add: get_forcasted_ds_def)
  show "main_raking_function w cause scenario measure' draw =
        (Inl (ValueError ''Invalid scenario ID and measure combination.''), [])"
    unfolding main_raking_function_def g by (rule and_then_Inl)
next
  assume a: "scenario_and_measure_map (scenario, measure') \<noteq> None \<and> cause \<noteq> ''malaria'' \<and> cause \<noteq> ''dengue''"
  then have c: "CAUSE_MAP cause = None" by (simp add: CAUSE_MAP_def)
  with a show g: "get_forcasted_ds w cause scenario measure' draw = (Inl (KeyError cause), [])"
    by (auto simp: get_forcasted_ds_def)
  show "main_raking_function w cause scenario measure' draw = (Inl (KeyError cause), [])"
    unfolding main_raking_function_def g by (rule and_then_Inl)
next
  assume "SCENARIO_MAP scenario = None \<or> MEASURE_MAP measure' = None \<or>
    (cause \<noteq> ''malaria'' \<and> cause \<noteq> ''dengue'')"
  then show "\<exists>e events. get_predicted_ds w cause scenario measure' draw = (Inl e, events) \<and>
                  filter file_access events = []"
    by (auto simp: get_predicted_ds_def split: option.splits)
qed

theorem configuration_errors_fail_fast_witness:
  "scenario_and_measure_map (1, ''death'') = None \<and>
   main_raking_function ex_world ''malaria'' 1 ''death'' 0 =
     (Inl (ValueError ''Invalid scenario ID and measure combination.''), []) \<and>
   scenario_and_measure_map (0, ''death'') \<noteq> None \<and>
   main_raking_function ex_world ''zika'' 0 ''death'' 0 = (Inl (KeyError ''zika''), []) \<and>
   get_predicted_ds ex_world ''zika'' 0 ''death'' 0 =
     (Inl (UnboundLocalError ''draw_folder''),
      [Print ''Unknown cause: zika, only dengue or malaria available.''])"
proof -
  have a: "scenario_and_measure_map (1, ''death'') = None"
    by (simp add: scenario_and_measure_map_def)
  have b: "scenario_and_measure_map (0, ''death'') \<noteq> None"
    by (simp add: scenario_and_measure_map_def)
  have c: "get_predicted_ds ex_world ''zika'' 0 ''death'' 0 =
     (Inl (UnboundLocalError ''draw_folder''),
      [Print ''Unknown cause: zika, only dengue or malaria available.''])"
    by (simp add: get_predicted_ds_def SCENARIO_MAP_def MEASURE_MAP_def)
  from configuration_errors_fail_fast[of 1 "''death''" ex_world "''malaria''" 0]
       configuration_errors_fail_fast[of 0 "''death''" ex_world "''zika''" 0]
  show ?thesis using a b c by simp
qed

text \<open>
  Claim C9 (orchestration skippability), evaluated on the code: with the output file of
  (malaria, 0, death, 0) present, \<open>check_if_path_draw_exists\<close> answers \<open>True\<close>, yet
  the task of that combination is in the list of tasks, which holds all 2400
  combinations: the loops of the launcher never call the check.
\<close>

theorem tasks_ignore_existing_output:
  "check_if_path_draw_exists ex_done_world ''malaria'' 0 ''death'' 0 = Inr True \<and>
   create_task ''malaria'' 0 ''death'' 0 \<in> set tasks \<and>
   length tasks = 2400"
proof -
  have a: "check_if_path_draw_exists ex_done_world ''malaria'' 0 ''death'' 0 = Inr True"
    by (simp add: check_if_path_draw_exists_def SCENARIO_MAP_def str_int_0 output_dir_def
        path_exists_def ex_done_world_def ex_world_def)
  have b: "create_task ''malaria'' 0 ''death'' 0 \<in> set tasks"
    using zero_in_DRAWS by (simp add: tasks_def CAUSES_def SCENARIOS_def MEASURES_def)
  have c: "length tasks = 2400"
    by (simp add: tasks_def CAUSES_def SCENARIOS_def MEASURES_def DRAWS_def)
  show ?thesis using a b c by simp
qed

text \<open>
  Claim C10 (the coarse table is restricted to the requested draw). For a valid request
  whose coarse-level file \<open>f\<close> exists, \<open>get_forcasted_ds\<close> returns \<open>f\<close> with the
  \<open>draw\<close> axis restricted to the labels equal to \<open>draw\<close>, so every key on the axes
  of the returned dataset has that draw. If the file is replaced by a file \<open>g\<close> with the
  same dimensions, axes and entities and the same values at the keys of that draw, then the factor
  step on the returned dataset ends the same way, with the same error or with factors
  that are the same at every key of that draw, and the whole run returns the same result
  with the same events.
\<close>

theorem coarse_table_restricted_to_draw:
  fixes f g :: "('o dim_key_scheme, real) row dataset"
  assumes "scenario_and_measure_map (scenario, measure') = Some dataset_name"
    and "CAUSE_MAP cause = Some file_name"
    and "forecast_files w (forecast_path measure' dataset_name file_name) = Some f"
    and "same_on_draw draw f g"
  shows "\<exists>ds events.
           get_forcasted_ds w cause scenario measure' draw = (Inr ds, events) \<and>
           ds = f\<lparr>draw_coord := filter (\<lambda>d. d = draw) (draw_coord f)\<rparr> \<and>
           (\<forall>k :: 'o dim_key_scheme. on_axes ds k \<longrightarrow> key_draw k = draw) \<and>
           (\<forall>ds_admin2 i k. key_draw k = draw \<longrightarrow>
              map_sum id (\<lambda>factor. map_option (\<lambda>r. val r k) (lookup i (rows factor)))
                (sum_and_align_admin2_totals ds_admin2
                   (g\<lparr>draw_coord := filter (\<lambda>d. d = draw) (draw_coord g)\<rparr>)) =
              map_sum id (\<lambda>factor. map_option (\<lambda>r. val r k) (lookup i (rows factor)))
                (sum_and_align_admin2_totals ds_admin2 ds)) \<and>
           main_raking_function
             (w\<lparr>forecast_files := (forecast_files w)(forecast_path measure' dataset_name file_name \<mapsto> g)\<rparr>)
             cause scenario measure' draw =
           main_raking_function w cause scenario measure' draw"
proof -
  let ?p = "forecast_path measure' dataset_name file_name"
  let ?w' = "w\<lparr>forecast_files := (forecast_files w)(?p \<mapsto> g)\<rparr>"
  have g1: "get_forcasted_ds w cause scenario measure' draw =
           (Inr (f\<lparr>draw_coord := filter (\<lambda>d. d = draw) (draw_coord f)\<rparr>), [PathExists ?p, OpenDataset ?p])"
    by (rule get_forcasted_ds_ok[OF assms(1,2,3)])
  have g2: "get_forcasted_ds ?w' cause scenario measure' draw =
           (Inr (g\<lparr>draw_coord := filter (\<lambda>d. d = draw) (draw_coord g)\<rparr>), [PathExists ?p, OpenDataset ?p])"
    by (rule get_forcasted_ds_ok[OF assms(1,2)]) simp
  have ax: "key_draw k = draw"
    if "on_axes (f\<lparr>draw_coord := filter (\<lambda>d. d = draw) (draw_coord f)\<rparr>) k" for k :: "'o dim_key_scheme"
    using that by (simp add: on_axes_def)
  have pair: "(raking_steps a2 (subset_admin1_to_admin2_dims
                   (g\<lparr>draw_coord := filter (\<lambda>d. d = draw) (draw_coord g)\<rparr>) x), []) =
              (raking_steps a2 (subset_admin1_to_admin2_dims
                   (f\<lparr>draw_coord := filter (\<lambda>d. d = draw) (draw_coord f)\<rparr>) x), [])"
    for a2 :: "('o dim_key_scheme, real) hrow dataset"
    and x :: "('o dim_key_scheme, real) row dataset"
    by (simp only: raking_after_subset_cong[OF assms(4)])
  have dm: "dims (g\<lparr>draw_coord := filter (\<lambda>d. d = draw) (draw_coord g)\<rparr>) =
            dims (f\<lparr>draw_coord := filter (\<lambda>d. d = draw) (draw_coord f)\<rparr>)"
    using assms(4) by (simp add: same_on_draw_def)
  have "main_raking_function ?w' cause scenario measure' draw =
        main_raking_function w cause scenario measure' draw"
    unfolding main_raking_function_def g1 g2 and_then_Inr Let_def dm
    by (intro arg_cong[where f="case_prod _"] and_then_cong refl pair
        get_predicted_ds_forecast_upd[OF assms(3)] load_in_hierarchy_dataset_forecast_upd)
  moreover have "map_sum id (\<lambda>factor. map_option (\<lambda>r. val r k) (lookup i (rows factor)))
                (sum_and_align_admin2_totals ds_admin2
                   (g\<lparr>draw_coord := filter (\<lambda>d. d = draw) (draw_coord g)\<rparr>)) =
              map_sum id (\<lambda>factor. map_option (\<lambda>r. val r k) (lookup i (rows factor)))
                (sum_and_align_admin2_totals ds_admin2
                   (f\<lparr>draw_coord := filter (\<lambda>d. d = draw) (draw_coord f)\<rparr>))"
    if "key_draw k = draw" for ds_admin2 i and k :: "'o dim_key_scheme"
    by (rule factor_agree[OF same_on_draw_where[OF assms(4)] that])
  ultimately show ?thesis using g1 ax by simp
qed

theorem coarse_table_restricted_to_draw_witness:
  "scenario_and_measure_map (0, ''death'') =
     Some ''20250709_first_sub_rcp45_climate_ref_100d_hiv_shocks_covid_all_s8_num'' \<and>
   CAUSE_MAP ''malaria'' = Some ''malaria.nc'' \<and>
   forecast_files ex_run_world ex_forecast_file = Some ex_forecast \<and>
   draw_coord ex_forecast = [0, 1] \<and>
   same_on_draw 0 ex_forecast ex_forecast_other \<and>
   map (\<lambda>r. val r (ex_key\<lparr>key_draw := 1\<rparr>)) (rows ex_forecast) = [100, 7, 0] \<and>
   map (\<lambda>r. val r (ex_key\<lparr>key_draw := 1\<rparr>)) (rows ex_forecast_other) = [101, 8, 1] \<and>
   (\<exists>ds events. get_forcasted_ds ex_run_world ''malaria'' 0 ''death'' 0 = (Inr ds, events) \<and>
                draw_coord ds = [0]) \<and>
   main_raking_function
     (ex_run_world\<lparr>forecast_files := (forecast_files ex_run_world)(ex_forecast_file \<mapsto> ex_forecast_other)\<rparr>)
     ''malaria'' 0 ''death'' 0 =
   main_raking_function ex_run_world ''malaria'' 0 ''death'' 0 \<and>
   (\<exists>out events. main_raking_function ex_run_world ''malaria'' 0 ''death'' 0 = (Inr out, events) \<and>
      map (\<lambda>r. (location_id r, val r ex_key)) (rows out) =
        [(11, Some 60), (12, Some 40), (14, Some 6), (13, Some 5)])"
proof -
  have a: "scenario_and_measure_map (0, ''death'') =
     Some ''20250709_first_sub_rcp45_climate_ref_100d_hiv_shocks_covid_all_s8_num''"
    by (simp add: scenario_and_measure_map_def)
  have b: "CAUSE_MAP ''malaria'' = Some ''malaria.nc''"
    by (simp add: CAUSE_MAP_def)
  have c: "forecast_files ex_run_world ex_forecast_file = Some ex_forecast"
    by (simp add: ex_run_world_def)
  have d: "draw_coord ex_forecast = [0, 1]"
    by (simp add: ex_forecast_def)
  have v: "map (\<lambda>r. val r (ex_key\<lparr>key_draw := 1\<rparr>)) (rows ex_forecast) = [100, 7, 0]"
      "map (\<lambda>r. val r (ex_key\<lparr>key_draw := 1\<rparr>)) (rows ex_forecast_other) = [101, 8, 1]"
    by (simp_all add: ex_forecast_other_def ex_forecast_def ex_admin1_def ex_key_def)
  have g: "\<exists>ds events. get_forcasted_ds ex_run_world ''malaria'' 0 ''death'' 0 = (Inr ds, events) \<and>
                draw_coord ds = [0]"
    unfolding ex_get_forcasted by (simp add: ex_admin1_def)
  obtain out :: "(dim_key, real option) row dataset"
    where o: "raking_steps ex_admin2 ex_admin1 = Inr out"
      "map (\<lambda>r. (location_id r, val r ex_key)) (rows out) =
           [(11, Some 60), (12, Some 40), (14, Some 6), (13, Some 5)]"
    using ex_raking_steps by (elim exE conjE)
  have m: "\<exists>out events. main_raking_function ex_run_world ''malaria'' 0 ''death'' 0 = (Inr out, events) \<and>
      map (\<lambda>r. (location_id r, val r ex_key)) (rows out) =
        [(11, Some 60), (12, Some 40), (14, Some 6), (13, Some 5)]"
    by (intro exI conjI) (rule ex_main_steps[OF o(1)], rule o(2))
  have e: "main_raking_function
     (ex_run_world\<lparr>forecast_files := (forecast_files ex_run_world)(ex_forecast_file \<mapsto> ex_forecast_other)\<rparr>)
     ''malaria'' 0 ''death'' 0 =
   main_raking_function ex_run_world ''malaria'' 0 ''death'' 0"
    using coarse_table_restricted_to_draw[OF a b c[unfolded ex_forecast_file_def] ex_same_on_draw]
    unfolding ex_forecast_file_def by (elim exE conjE)
  show ?thesis
    by (intro conjI a b c d v g e m ex_same_on_draw)
qed

text \<open>
  Claim C7 (no-parent passthrough), evaluated on the code where it fails. In the run
  above the only fine-level entity, 13, has a parent that is absent from the coarse
  table. The split puts it in the without-parent partition and leaves the with-parent
  partition without rows; grouping that partition raises \<open>ValueError\<close>, so the raking
  steps and the whole run end with this error after reading the three input files:
  nothing is merged and no output file is written, and the entity 13 appears in no
  output. (Whenever some fine-level row has its parent in the coarse table, the rows
  without parent do pass through unchanged: lemma \<open>passthrough_when_raked\<close>.)
\<close>

theorem orphans_only_run_raises:
  "rows ex_orphans = [\<lparr>location_id = 13, val = (\<lambda>_. 5), parent_id = 99\<rparr>] \<and>
   99 \<notin> location_id ` set (rows ex_admin1) \<and>
   split_ds_admin2 ex_orphans ex_admin1 = (ex_orphans\<lparr>rows := []\<rparr>, ex_orphans) \<and>
   raking_steps ex_orphans ex_admin1 = Inl (ValueError ''parent_id must not be empty'') \<and>
   main_raking_function ex_orphans_world ''malaria'' 0 ''death'' 0 =
     (Inl (ValueError ''parent_id must not be empty''),
      [PathExists ex_forecast_file, OpenDataset ex_forecast_file,
       PathExists ex_predicted_folder, OpenDataset (ex_predicted_folder @ ''/draw_0.nc''),
       OpenDataset hierarchy_path])"
proof -
  have s: "split_ds_admin2 ex_orphans ex_admin1 = (ex_orphans\<lparr>rows := []\<rparr>, ex_orphans)"
    by (simp add: split_ds_admin2_def ex_orphans_def ex_admin1_def set_inter_list_def)
  have m: "main_raking_function ex_orphans_world ''malaria'' 0 ''death'' 0 =
     (Inl (ValueError ''parent_id must not be empty''),
      [PathExists ex_forecast_file, OpenDataset ex_forecast_file,
       PathExists ex_predicted_folder, OpenDataset (ex_predicted_folder @ ''/draw_0.nc''),
       OpenDataset hierarchy_path])"
    unfolding main_raking_function_def ex_orphans_get_forcasted ex_orphans_get_predicted
      and_then_Inr Let_def
    apply (simp only: ex_orphans_pipeline and_then_Inr and_then_pure ex_orphans_raking and_then_Inl)
    apply simp
    done
  have r: "rows ex_orphans = [\<lparr>location_id = 13, val = (\<lambda>_. 5), parent_id = 99\<rparr>]"
    by (simp add: ex_orphans_def)
  have p: "99 \<notin> location_id ` set (rows ex_admin1)"
    by (simp add: ex_admin1_def)
  show ?thesis
    by (intro conjI r p s ex_orphans_raking m)
qed

end
